theory Spec2Isabelle
  imports Main "HOL-Library.Sublist"
begin

section \<open>JavaScript string helpers\<close>

text \<open>
  A string is a list of bytes: a text is taken in its UTF-8 encoding, as it stands in the
  files, environment variables, command lines and headers the hooks read. Splitting,
  prefix tests and comparisons with ASCII words act on the bytes as they act on the text.

  \<open>white_space\<close> lists the encodings of the characters that \<open>String.prototype.trim\<close> and
  \<open>parseInt\<close> strip: tab, line feed, vertical tab, form feed, carriage return, space,
  U+00A0, U+1680, U+2000 to U+200A, U+2028, U+2029, U+202F, U+205F, U+3000 and U+FEFF.
\<close>

definition white_space :: "string list" where
  "white_space =
     map (\<lambda>c. [c]) [CHR 0x09, CHR 0x0A, CHR 0x0B, CHR 0x0C, CHR 0x0D, CHR 0x20]
     @ [ [CHR 0xC2, CHR 0xA0],
      [CHR 0xE1, CHR 0x9A, CHR 0x80],
      [CHR 0xE2, CHR 0x80, CHR 0x80], [CHR 0xE2, CHR 0x80, CHR 0x81],
      [CHR 0xE2, CHR 0x80, CHR 0x82], [CHR 0xE2, CHR 0x80, CHR 0x83],
      [CHR 0xE2, CHR 0x80, CHR 0x84], [CHR 0xE2, CHR 0x80, CHR 0x85],
      [CHR 0xE2, CHR 0x80, CHR 0x86], [CHR 0xE2, CHR 0x80, CHR 0x87],
      [CHR 0xE2, CHR 0x80, CHR 0x88], [CHR 0xE2, CHR 0x80, CHR 0x89],
      [CHR 0xE2, CHR 0x80, CHR 0x8A],
      [CHR 0xE2, CHR 0x80, CHR 0xA8], [CHR 0xE2, CHR 0x80, CHR 0xA9],
      [CHR 0xE2, CHR 0x80, CHR 0xAF],
      [CHR 0xE2, CHR 0x81, CHR 0x9F],
      [CHR 0xE3, CHR 0x80, CHR 0x80],
      [CHR 0xEF, CHR 0xBB, CHR 0xBF] ]"

text \<open>
  \<open>strip_ws seqs s\<close> removes from the head of \<open>s\<close> every byte sequence listed in \<open>seqs\<close>
  (sequences of one to three bytes), until none is left there.
\<close>

fun strip_ws :: "string list \<Rightarrow> string \<Rightarrow> string" where
  "strip_ws seqs [] = []"
| "strip_ws seqs (c # s) =
     (if [c] \<in> set seqs then strip_ws seqs s
      else if c # take 1 s \<in> set seqs then strip_ws seqs (drop 1 s)
      else if c # take 2 s \<in> set seqs then strip_ws seqs (drop 2 s)
      else c # s)"

definition trimStart :: "string \<Rightarrow> string" where
  "trimStart s = strip_ws white_space s"

definition trimEnd :: "string \<Rightarrow> string" where
  "trimEnd s = rev (strip_ws (map rev white_space) (rev s))"

definition trim :: "string \<Rightarrow> string" where
  "trim s = trimEnd (trimStart s)"

text \<open>
  Case conversion. The hooks compare the converted text with ASCII words only
  (\<open>true\<close>, \<open>false\<close>, \<open>TRUE\<close>, content types). \<open>toLowerCase\<close> maps the ASCII capitals
  and the Kelvin sign U+212A, the one other character whose lower case is an ASCII
  letter; \<open>toUpperCase\<close> maps the ASCII small letters. Every other character is left as it
  is: JavaScript may change it, but never so that the outcome of a comparison with one of
  these words, or of a prefix test against one of them, differs.
\<close>

definition lower_char :: "char \<Rightarrow> char" where
  "lower_char c =
     (case map_of (zip ''ABCDEFGHIJKLMNOPQRSTUVWXYZ'' ''abcdefghijklmnopqrstuvwxyz'') c of
        Some d \<Rightarrow> d | None \<Rightarrow> c)"

definition upper_char :: "char \<Rightarrow> char" where
  "upper_char c =
     (case map_of (zip ''abcdefghijklmnopqrstuvwxyz'' ''ABCDEFGHIJKLMNOPQRSTUVWXYZ'') c of
        Some d \<Rightarrow> d | None \<Rightarrow> c)"

fun toLowerCase :: "string \<Rightarrow> string" where
  "toLowerCase [] = []"
| "toLowerCase (c # s) =
     (if c # take 2 s = [CHR 0xE2, CHR 0x84, CHR 0xAA] then CHR ''k'' # toLowerCase (drop 2 s)
      else lower_char c # toLowerCase s)"

definition toUpperCase :: "string \<Rightarrow> string" where
  "toUpperCase s = map upper_char s"

definition startsWith :: "string \<Rightarrow> string \<Rightarrow> bool" where
  "startsWith s p = (take (length p) s = p)"

fun str_includes :: "string \<Rightarrow> string \<Rightarrow> bool" where
  "str_includes [] p = (p = [])"
| "str_includes (c # s) p = (startsWith (c # s) p \<or> str_includes s p)"

text \<open>\<open>s.split(sep)\<close> for a one-character separator: always at least one piece.\<close>

fun split_char :: "char \<Rightarrow> string \<Rightarrow> string list" where
  "split_char sep [] = [[]]"
| "split_char sep (c # s) =
     (if c = sep then [] # split_char sep s
      else (case split_char sep s of
              [] \<Rightarrow> [[c]]
            | p # ps \<Rightarrow> (c # p) # ps))"

fun join :: "string \<Rightarrow> string list \<Rightarrow> string" where
  "join sep [] = []"
| "join sep [x] = x"
| "join sep (x # y # ys) = x @ sep @ join sep (y # ys)"

text \<open>Decimal rendering of a number, as a template literal prints it.\<close>

definition digit_char :: "nat \<Rightarrow> char" where
  "digit_char d = ''0123456789'' ! (d mod 10)"

fun dec_nat :: "nat \<Rightarrow> string" where
  "dec_nat n = (if n < 10 then [digit_char n] else dec_nat (n div 10) @ [digit_char (n mod 10)])"

declare dec_nat.simps [simp del]

definition dec_int :: "int \<Rightarrow> string" where
  "dec_int i = (if i < 0 then CHR ''-'' # dec_nat (nat (- i)) else dec_nat (nat i))"

section \<open>Session launcher: argument composition (chrome\_utils, launchChromium)\<close>

text \<open>
  The runtime-computed flags. \<open>userDataDir\<close> is a string that is empty when no profile
  directory is configured; width and height come from \<open>parseResolution\<close>.
\<close>

definition dynamicArgs ::
  "nat \<Rightarrow> bool \<Rightarrow> int \<Rightarrow> int \<Rightarrow> string \<Rightarrow> bool \<Rightarrow> bool \<Rightarrow> string list" where
  "dynamicArgs debugPort sandbox width height userDataDir headless checkSsl =
     [''--remote-debugging-port='' @ dec_nat debugPort,
      ''--remote-debugging-address=127.0.0.1'']
     @ (if sandbox then [] else [''--no-sandbox'', ''--disable-setuid-sandbox''])
     @ [''--disable-dev-shm-usage'',
        ''--disable-gpu'',
        ''--window-size='' @ dec_int width @ '','' @ dec_int height]
     @ (if userDataDir \<noteq> [] then [''--user-data-dir='' @ userDataDir] else [])
     @ (if headless then [''--headless=new''] else [])
     @ (if checkSsl then [] else [''--ignore-certificate-errors''])"

text \<open>
  The effective command line: base, dynamic and extra flags spread into one array, the
  keychain flag pushed when absent, the extension flags pushed when extensions are
  loaded, and the start page last.
\<close>

definition chromiumArgs ::
  "string list \<Rightarrow> string list \<Rightarrow> string list \<Rightarrow> string list \<Rightarrow> string list" where
  "chromiumArgs baseArgs dynArgs extraArgs extensionPaths =
     (let a0 = baseArgs @ dynArgs @ extraArgs;
          a1 = (if ''--use-mock-keychain'' \<in> set a0 then a0 else a0 @ [''--use-mock-keychain'']);
          a2 = (if length extensionPaths > 0
                then a1 @ [''--load-extension='' @ join '','' extensionPaths,
                           ''--enable-unsafe-extension-debugging'',
                           ''--disable-features=DisableLoadExtensionCommandLineSwitch,ExtensionManifestV2Unsupported,ExtensionManifestV2Disabled'']
                else a1)
      in a2 @ [''about:blank''])"

text \<open>The key of a \<open>--key=value\<close> flag: the text before the first \<open>=\<close>.\<close>

definition flag_key :: "string \<Rightarrow> string" where
  "flag_key a = takeWhile (\<lambda>c. c \<noteq> CHR ''='') a"

section \<open>Environment and command-line helpers (chrome\_utils)\<close>

type_synonym env = "string \<rightharpoonup> string"

text \<open>\<open>(process.env[name] || defaultValue).trim()\<close>: an empty value counts as unset.\<close>

definition getEnv :: "env \<Rightarrow> string \<Rightarrow> string \<Rightarrow> string" where
  "getEnv e name defaultValue =
     trim (case e name of None \<Rightarrow> defaultValue
           | Some v \<Rightarrow> if v = [] then defaultValue else v)"

definition getEnvBool :: "env \<Rightarrow> string \<Rightarrow> bool \<Rightarrow> bool" where
  "getEnvBool e name defaultValue =
     (let val = toLowerCase (getEnv e name [])
      in if val \<in> set [''true'', ''1'', ''yes'', ''on''] then True
         else if val \<in> set [''false'', ''0'', ''no'', ''off''] then False
         else defaultValue)"

text \<open>
  \<open>parseInt(s, 10)\<close>: leading white space, an optional sign, then the longest run of
  decimal digits; \<open>None\<close> is \<open>NaN\<close>. The value is exact, as it is in JavaScript up to
  \<open>2^53\<close>, which covers the process ids, sizes and times the hooks parse; JavaScript
  rounds larger values to the nearest number it can represent.
\<close>

definition is_digit :: "char \<Rightarrow> bool" where
  "is_digit c = (c \<in> set ''0123456789'')"

definition digit_val :: "char \<Rightarrow> nat" where
  "digit_val c = (case map_of (zip ''0123456789'' [0, 1, 2, 3, 4, 5, 6, 7, 8, 9]) c of
                    Some d \<Rightarrow> d | None \<Rightarrow> 0)"

definition digits_val :: "string \<Rightarrow> nat" where
  "digits_val ds = foldl (\<lambda>acc c. 10 * acc + digit_val c) 0 ds"

definition parseInt :: "string \<Rightarrow> int option" where
  "parseInt s =
     (let t = trimStart s;
          neg = (t \<noteq> [] \<and> hd t = CHR ''-'');
          r = (if t \<noteq> [] \<and> (hd t = CHR ''-'' \<or> hd t = CHR ''+'') then tl t else t);
          ds = takeWhile is_digit r
      in if ds = [] then None
         else Some (if neg then - int (digits_val ds) else int (digits_val ds)))"

definition getEnvInt :: "env \<Rightarrow> string \<Rightarrow> int \<Rightarrow> int" where
  "getEnvInt e name defaultValue =
     (case parseInt (getEnv e name (dec_int defaultValue)) of
        None \<Rightarrow> defaultValue | Some v \<Rightarrow> v)"

text \<open>
  A parsed argument is the text after the first \<open>=\<close>, or \<open>true\<close> when that text is
  empty (\<open>valueParts.join('=') || true\<close>).
\<close>

datatype argval = ArgStr string | ArgTrue

definition parse_arg :: "string \<Rightarrow> (string \<times> argval) option" where
  "parse_arg arg =
     (if startsWith arg ''--'' then
        (case split_char CHR ''='' (drop 2 arg) of
           [] \<Rightarrow> None
         | key # valueParts \<Rightarrow>
             Some (map (\<lambda>c. if c = CHR ''-'' then CHR ''_'' else c) key,
                   (if join ''='' valueParts = [] then ArgTrue
                    else ArgStr (join ''='' valueParts))))
      else None)"

fun parseArgs_from :: "(string \<rightharpoonup> argval) \<Rightarrow> string list \<Rightarrow> (string \<rightharpoonup> argval)" where
  "parseArgs_from args [] = args"
| "parseArgs_from args (a # as) =
     parseArgs_from (case parse_arg a of None \<Rightarrow> args | Some (k, v) \<Rightarrow> args(k \<mapsto> v)) as"

definition parseArgs :: "string list \<Rightarrow> (string \<rightharpoonup> argval)" where
  "parseArgs argv = parseArgs_from Map.empty argv"

section \<open>Hook processes and their standard output\<close>

datatype status = Succeeded | Failed | Skipped

text \<open>
  One \<open>console.log(JSON.stringify({type: 'ArchiveResult', ...}))\<close> line: the status, the
  output string and the plugin-specific fields (name and value, in order).
\<close>

record archive_result =
  ar_status :: status
  ar_output_str :: string
  ar_fields :: "(string \<times> string) list"

text \<open>A line on standard output is an ArchiveResult record or any other text.\<close>

datatype out_line = ResultLine archive_result | TextLine string

fun is_result :: "out_line \<Rightarrow> bool" where
  "is_result (ResultLine r) = True"
| "is_result (TextLine t) = False"

definition result_lines :: "out_line list \<Rightarrow> out_line list" where
  "result_lines ls = filter is_result ls"

text \<open>
  What a hook process has done so far: its standard output, the code it has exited with
  (\<open>None\<close> while it has not exited; a process killed by a signal never gets one) and
  the number of browser connections it has attempted.
\<close>

record proc =
  stdout :: "out_line list"
  exit_code :: "nat option"
  connects :: nat

definition proc0 :: proc where
  "proc0 = \<lparr>stdout = [], exit_code = None, connects = 0\<rparr>"

datatype js_error = JsError string string

fun err_str :: "js_error \<Rightarrow> string" where
  "err_str (JsError name message) = name @ '': '' @ message"

definition skipped_line :: "string \<Rightarrow> out_line" where
  "skipped_line flag =
     ResultLine \<lparr>ar_status = Skipped, ar_output_str = flag @ ''=False'', ar_fields = []\<rparr>"

definition failed_line :: "js_error \<Rightarrow> out_line" where
  "failed_line e =
     ResultLine \<lparr>ar_status = Failed, ar_output_str = err_str e, ar_fields = []\<rparr>"

text \<open>
  The opening of \<open>main\<close> shared by the dns, ssl, responses, consolelog, redirects and
  staticfile hooks: the usage check, then the enablement flag. The result is the finished
  process when \<open>main\<close> exits there, and the \<open>url\<close> argument when it goes on to the setup.
\<close>

definition hook_prologue :: "string \<Rightarrow> string list \<Rightarrow> env \<Rightarrow> proc + argval" where
  "hook_prologue flag argv e =
     (let args = parseArgs argv in
      case (args ''url'', args ''snapshot_id'') of
        (Some url, Some snapshotId) \<Rightarrow>
          if \<not> getEnvBool e flag True
          then Inl (proc0\<lparr>stdout := [skipped_line flag], exit_code := Some 0\<rparr>)
          else Inr url
      | _ \<Rightarrow> Inl (proc0\<lparr>exit_code := Some 1\<rparr>))"

section \<open>TLS extractor (on\_Snapshot\_\_23\_ssl)\<close>

record cert_details =
  cd_protocol :: string
  cd_subjectName :: string
  cd_issuer :: string
  cd_validFrom :: int
  cd_validTo :: int
  cd_sanList :: "string list"

record ssl_info =
  securityState :: string
  schemeIsCryptographic :: bool
  si_cert :: "cert_details option"
  si_error :: "string option"

text \<open>
  The state of the ssl hook: the process; the awaited \<open>connectToPage\<close> with the outcome
  it will have, while it is pending; whether the process was terminated by a signal that
  no handler caught; whether the response listener and the signal handlers are
  installed; the content of \<open>ssl.jsonl\<close>; the number of \<open>securityDetails()\<close> reads; and
  the two module-level flags.
\<close>

record ssl_state = proc +
  ssl_setup :: "(js_error + unit) option"
  ssl_killed :: bool
  ssl_listening :: bool
  ssl_file :: "ssl_info option"
  ssl_cert_reads :: nat
  sslCaptured :: bool
  ssl_shuttingDown :: bool

definition ssl_state0 :: ssl_state where
  "ssl_state0 = \<lparr>stdout = [], exit_code = None, connects = 0, ssl_setup = None,
     ssl_killed = False, ssl_listening = False,
     ssl_file = None, ssl_cert_reads = 0, sslCaptured = False, ssl_shuttingDown = False\<rparr>"

text \<open>
  \<open>setupListener(url)\<close> up to its first \<open>await\<close>: the scheme guard comes first and
  throws; only then is \<open>connectToPage\<close> called, whose outcome \<open>conn\<close> is given by the
  environment and awaited. A \<open>url\<close> that is the boolean \<open>true\<close> has no \<open>startsWith\<close>
  method.
\<close>

definition ssl_setupListener ::
  "argval \<Rightarrow> (js_error + unit) \<Rightarrow> ssl_state \<Rightarrow> js_error + ssl_state" where
  "ssl_setupListener url conn st =
     (case url of
        ArgTrue \<Rightarrow> Inl (JsError ''TypeError'' ''url.startsWith is not a function'')
      | ArgStr u \<Rightarrow>
          if \<not> startsWith u ''https://''
          then Inl (JsError ''Error'' ''URL is not HTTPS'')
          else Inr (st\<lparr>connects := connects st + 1, ssl_setup := Some conn\<rparr>))"

text \<open>
  \<open>main\<close>: an error thrown before the first \<open>await\<close> reaches the \<open>catch\<close> at once;
  otherwise the process waits for the connection.
\<close>

definition ssl_main :: "string list \<Rightarrow> env \<Rightarrow> (js_error + unit) \<Rightarrow> ssl_state" where
  "ssl_main argv e conn =
     (case hook_prologue ''SSL_ENABLED'' argv e of
        Inl p \<Rightarrow> ssl_state0\<lparr>stdout := stdout p, exit_code := exit_code p\<rparr>
      | Inr url \<Rightarrow>
          (case ssl_setupListener url conn ssl_state0 of
             Inr st \<Rightarrow> st
           | Inl err \<Rightarrow> ssl_state0\<lparr>stdout := [failed_line err], exit_code := Some 1\<rparr>))"

text \<open>
  When the connection settles: after a success the response listener is installed and
  \<open>main\<close> registers the signal handlers; after a failure the \<open>catch\<close> of \<open>main\<close> prints
  the failed result and exits with code 1.
\<close>

definition ssl_settle :: "(js_error + unit) \<Rightarrow> ssl_state \<Rightarrow> ssl_state" where
  "ssl_settle conn st =
     (case conn of
        Inr _ \<Rightarrow> st\<lparr>ssl_setup := None, ssl_listening := True\<rparr>
      | Inl err \<Rightarrow> st\<lparr>ssl_setup := None, stdout := stdout st @ [failed_line err],
                       exit_code := Some 1\<rparr>)"

text \<open>
  The response listener. A response is described by what the listener reads from it:
  whether it is the main-frame navigation request, its URL, and its security details.
\<close>

record ssl_response =
  sr_navigation :: bool
  sr_main_frame :: bool
  sr_url :: string
  sr_securityDetails :: "cert_details option"

definition ssl_on_response :: "string \<Rightarrow> ssl_state \<Rightarrow> ssl_response \<Rightarrow> ssl_state" where
  "ssl_on_response url st r =
     (if \<not> sr_navigation r \<or> \<not> sr_main_frame r then st
      else if \<not> startsWith (sr_url r) (hd (split_char CHR ''?'' url)) then st
      else
        (let st1 = st\<lparr>ssl_cert_reads := ssl_cert_reads st + 1\<rparr>;
             sslInfo =
               (case sr_securityDetails r of
                  Some d \<Rightarrow> \<lparr>securityState = ''secure'', schemeIsCryptographic = True,
                              si_cert = Some d, si_error = None\<rparr>
                | None \<Rightarrow>
                    if startsWith (sr_url r) ''https://''
                    then \<lparr>securityState = ''unknown'', schemeIsCryptographic = True,
                          si_cert = None, si_error = Some ''No security details available''\<rparr>
                    else \<lparr>securityState = ''insecure'', schemeIsCryptographic = False,
                          si_cert = None, si_error = None\<rparr>)
         in st1\<lparr>ssl_file := Some sslInfo, sslCaptured := True\<rparr>))"

definition ssl_emitResult :: "status \<Rightarrow> ssl_state \<Rightarrow> ssl_state" where
  "ssl_emitResult s st =
     (if ssl_shuttingDown st then st
      else st\<lparr>ssl_shuttingDown := True,
              stdout := stdout st @ [ResultLine \<lparr>ar_status = s,
                 ar_output_str = (if sslCaptured st then ''ssl.jsonl'' else ''ssl.jsonl''),
                 ar_fields = []\<rparr>]\<rparr>)"

definition ssl_handleShutdown :: "ssl_state \<Rightarrow> ssl_state" where
  "ssl_handleShutdown st = (ssl_emitResult Succeeded st)\<lparr>exit_code := Some 0\<rparr>"

datatype ssl_event = SslSetupSettled | SslResponse ssl_response | SslSignal

text \<open>
  One step of the process. A process that has exited or was killed does nothing more.
  While the connection is pending, no listener and no signal handler exists: responses
  are not seen, and a termination signal kills the process as it is.
\<close>

definition ssl_step :: "string \<Rightarrow> ssl_state \<Rightarrow> ssl_event \<Rightarrow> ssl_state" where
  "ssl_step url st ev =
     (if exit_code st \<noteq> None \<or> ssl_killed st then st
      else (case ssl_setup st of
              Some conn \<Rightarrow>
                (case ev of
                   SslSetupSettled \<Rightarrow> ssl_settle conn st
                 | SslSignal \<Rightarrow> st\<lparr>ssl_killed := True\<rparr>
                 | SslResponse r \<Rightarrow> st)
            | None \<Rightarrow>
                if \<not> ssl_listening st then st
                else (case ev of
                        SslSetupSettled \<Rightarrow> st
                      | SslResponse r \<Rightarrow> ssl_on_response url st r
                      | SslSignal \<Rightarrow> ssl_handleShutdown st)))"

definition ssl_run ::
  "string list \<Rightarrow> env \<Rightarrow> (js_error + unit) \<Rightarrow> ssl_event list \<Rightarrow> ssl_state" where
  "ssl_run argv e conn evs =
     foldl (ssl_step (case parseArgs argv ''url'' of Some (ArgStr u) \<Rightarrow> u | _ \<Rightarrow> []))
       (ssl_main argv e conn) evs"

section \<open>DNS recorder (on\_Snapshot\_\_22\_dns)\<close>

text \<open>
  One line of \<open>dns.jsonl\<close>. The timestamp field is left out: it is the wall clock at
  the moment of the write and no decision depends on it.
\<close>

record dns_record =
  dr_hostname :: string
  dr_ip :: "string option"
  dr_port :: "nat option"
  dr_type :: string
  dr_protocol :: string
  dr_url :: string
  dr_requestId :: string
  dr_error :: "string option"

text \<open>
  The state of the dns hook: the process; the awaited \<open>setupListener\<close> with the outcome
  it will have, while it is pending; whether the process was terminated by a signal that
  no handler caught; whether the listeners and the signal handlers are installed; and
  the variables of the script.
\<close>

record dns_state = proc +
  dns_setup :: "(js_error + unit) option"
  dns_killed :: bool
  dns_listening :: bool
  seenResolutions :: "string set"
  requestUrls :: "string \<rightharpoonup> string"
  dns_file :: "dns_record list"
  recordCount :: nat
  dns_shuttingDown :: bool

definition dns_state0 :: dns_state where
  "dns_state0 = \<lparr>stdout = [], exit_code = None, connects = 0, dns_setup = None,
     dns_killed = False, dns_listening = False,
     seenResolutions = {}, requestUrls = Map.empty, dns_file = [], recordCount = 0,
     dns_shuttingDown = False\<rparr>"

text \<open>
  \<open>extractHostname\<close> wraps the platform's URL parser, which is not part of the
  repository: \<open>hn url\<close> is the hostname it returns, \<open>None\<close> when it throws.
\<close>

definition extractHostname :: "(string \<Rightarrow> string option) \<Rightarrow> string \<Rightarrow> string option" where
  "extractHostname hn url = hn url"

definition url_protocol :: "string \<Rightarrow> string" where
  "url_protocol url = (if startsWith url ''https://'' then ''https'' else ''http'')"

text \<open>
  What happens to the process: the awaited setup settles, an event of the protocol
  session arrives, or a termination signal (\<open>SIGTERM\<close> or \<open>SIGINT\<close>) is delivered. An
  absent string field is the empty string. The last component of a response or failure
  event tells whether the append to \<open>dns.jsonl\<close> succeeds; when it throws, the listener
  swallows the error after the key has been marked as seen.
\<close>

datatype dns_event =
    DnsSetupSettled
  | RequestWillBeSent string string
  | ResponseReceived string string string "nat option" bool
  | LoadingFailed string string bool
  | DnsSignal

definition dns_append :: "bool \<Rightarrow> dns_record \<Rightarrow> dns_state \<Rightarrow> dns_state" where
  "dns_append ok r st =
     (if ok then st\<lparr>dns_file := dns_file st @ [r], recordCount := recordCount st + 1\<rparr>
      else st)"

definition on_requestWillBeSent :: "dns_state \<Rightarrow> string \<Rightarrow> string \<Rightarrow> dns_state" where
  "on_requestWillBeSent st requestId url = st\<lparr>requestUrls := (requestUrls st)(requestId \<mapsto> url)\<rparr>"

definition on_responseReceived ::
  "(string \<Rightarrow> string option) \<Rightarrow> dns_state \<Rightarrow> string \<Rightarrow> string \<Rightarrow> string \<Rightarrow> nat option \<Rightarrow> bool
     \<Rightarrow> dns_state" where
  "on_responseReceived hn st requestId url remoteIPAddress remotePort ok =
     (if url = [] \<or> remoteIPAddress = [] then st
      else (case extractHostname hn url of
              None \<Rightarrow> st
            | Some hostname \<Rightarrow>
                if hostname = [] then st
                else if hostname = remoteIPAddress then st
                else
                  (let resolutionKey = hostname @ '':'' @ remoteIPAddress in
                   if resolutionKey \<in> seenResolutions st then st
                   else
                     dns_append ok
                       \<lparr>dr_hostname = hostname,
                        dr_ip = Some remoteIPAddress,
                        dr_port = (if remotePort = Some 0 then None else remotePort),
                        dr_type = (if CHR '':'' \<in> set remoteIPAddress then ''AAAA'' else ''A''),
                        dr_protocol = url_protocol url,
                        dr_url = url,
                        dr_requestId = requestId,
                        dr_error = None\<rparr>
                       (st\<lparr>seenResolutions := insert resolutionKey (seenResolutions st)\<rparr>))))"

definition on_loadingFailed ::
  "(string \<Rightarrow> string option) \<Rightarrow> dns_state \<Rightarrow> string \<Rightarrow> string \<Rightarrow> bool \<Rightarrow> dns_state" where
  "on_loadingFailed hn st requestId errorText ok =
     (case requestUrls st requestId of
        None \<Rightarrow> st
      | Some url \<Rightarrow>
          if url = [] then st
          else (case extractHostname hn url of
                  None \<Rightarrow> st
                | Some hostname \<Rightarrow>
                    if hostname = [] then st
                    else if str_includes errorText ''net::ERR_NAME_NOT_RESOLVED''
                            \<or> str_includes errorText ''net::ERR_NAME_RESOLUTION_FAILED''
                    then
                      (let resolutionKey = hostname @ '':NXDOMAIN'' in
                       if resolutionKey \<in> seenResolutions st then st
                       else
                         dns_append ok
                           \<lparr>dr_hostname = hostname,
                            dr_ip = None,
                            dr_port = None,
                            dr_type = ''NXDOMAIN'',
                            dr_protocol = url_protocol url,
                            dr_url = url,
                            dr_requestId = requestId,
                            dr_error = Some errorText\<rparr>
                           (st\<lparr>seenResolutions := insert resolutionKey (seenResolutions st)\<rparr>))
                    else st))"

definition dns_emitResult :: "status \<Rightarrow> dns_state \<Rightarrow> dns_state" where
  "dns_emitResult s st =
     (if dns_shuttingDown st then st
      else st\<lparr>dns_shuttingDown := True,
              stdout := stdout st @ [ResultLine \<lparr>ar_status = s,
                 ar_output_str = ''dns.jsonl ('' @ dec_nat (recordCount st) @ '' DNS records)'',
                 ar_fields = []\<rparr>]\<rparr>)"

definition dns_handleShutdown :: "dns_state \<Rightarrow> dns_state" where
  "dns_handleShutdown st = (dns_emitResult Succeeded st)\<lparr>exit_code := Some 0\<rparr>"

text \<open>
  \<open>main\<close>: after the shared opening, \<open>setupListener\<close> is called and awaited. It empties
  the output file, calls \<open>connectToPage\<close> and enables the network domain; \<open>setup\<close> is
  the outcome these steps will have, and the connection attempt is counted from the
  start (an upper bound: a failing write of the output file comes before it).
\<close>

definition dns_main :: "string list \<Rightarrow> env \<Rightarrow> (js_error + unit) \<Rightarrow> dns_state" where
  "dns_main argv e setup =
     (case hook_prologue ''DNS_ENABLED'' argv e of
        Inl p \<Rightarrow> dns_state0\<lparr>stdout := stdout p, exit_code := exit_code p\<rparr>
      | Inr url \<Rightarrow> dns_state0\<lparr>connects := 1, dns_setup := Some setup\<rparr>)"

text \<open>
  When the setup settles, \<open>main\<close> goes on: after a success it registers the signal
  handlers, the listeners being installed already, and stays resident; after a failure
  its \<open>catch\<close> prints the failed result and exits with code 1.
\<close>

definition dns_settle :: "(js_error + unit) \<Rightarrow> dns_state \<Rightarrow> dns_state" where
  "dns_settle setup st =
     (case setup of
        Inr _ \<Rightarrow> st\<lparr>dns_setup := None, dns_listening := True\<rparr>
      | Inl err \<Rightarrow> st\<lparr>dns_setup := None, stdout := stdout st @ [failed_line err],
                       exit_code := Some 1\<rparr>)"

text \<open>
  One step of the process. A process that has exited or was killed does nothing more.
  While the setup is pending, no listener and no signal handler exists: protocol events
  are not seen, and a termination signal kills the process as it is. Afterwards the
  listeners and \<open>handleShutdown\<close> take the events.
\<close>

definition dns_step :: "(string \<Rightarrow> string option) \<Rightarrow> dns_state \<Rightarrow> dns_event \<Rightarrow> dns_state" where
  "dns_step hn st ev =
     (if exit_code st \<noteq> None \<or> dns_killed st then st
      else (case dns_setup st of
              Some setup \<Rightarrow>
                (case ev of
                   DnsSetupSettled \<Rightarrow> dns_settle setup st
                 | DnsSignal \<Rightarrow> st\<lparr>dns_killed := True\<rparr>
                 | _ \<Rightarrow> st)
            | None \<Rightarrow>
                if \<not> dns_listening st then st
                else (case ev of
                        DnsSetupSettled \<Rightarrow> st
                      | RequestWillBeSent requestId url \<Rightarrow> on_requestWillBeSent st requestId url
                      | ResponseReceived requestId url ip port ok \<Rightarrow>
                          on_responseReceived hn st requestId url ip port ok
                      | LoadingFailed requestId errorText ok \<Rightarrow>
                          on_loadingFailed hn st requestId errorText ok
                      | DnsSignal \<Rightarrow> dns_handleShutdown st)))"

definition dns_run ::
  "(string \<Rightarrow> string option) \<Rightarrow> string list \<Rightarrow> env \<Rightarrow> (js_error + unit) \<Rightarrow> dns_event list
     \<Rightarrow> dns_state" where
  "dns_run hn argv e setup evs = foldl (dns_step hn) (dns_main argv e setup) evs"

section \<open>Screenshot taker (on\_Snapshot\_\_51\_screenshot)\<close>

text \<open>
  What \<open>takeScreenshot\<close> finds: whether the navigation marker appeared in time, the
  session files, and the outcome of connecting and, once connected, of locating the
  target and writing the image (the output path on success).
\<close>

record shot_world =
  sw_pageLoaded :: bool
  sw_cdpUrl :: "string option"
  sw_targetId :: "string option"
  sw_connect :: "js_error + (js_error + string)"

definition takeScreenshot :: "env \<Rightarrow> shot_world \<Rightarrow> proc \<Rightarrow> (js_error + string) \<times> proc" where
  "takeScreenshot e w p =
     (if \<not> sw_pageLoaded w
      then (Inl (JsError ''Error''
                  (''Page not loaded after ''
                   @ (case parseInt (getEnv e ''SCREENSHOT_TIMEOUT'' ''10'') of
                        None \<Rightarrow> ''NaN'' | Some t \<Rightarrow> dec_int t)
                   @ ''s (chrome_navigate must complete first)'')), p)
      else (case sw_cdpUrl w of
              None \<Rightarrow> (Inl (JsError ''Error'' ''No Chrome session found (chrome plugin must run first)''), p)
            | Some cdpUrl \<Rightarrow>
                if cdpUrl = []
                then (Inl (JsError ''Error'' ''No Chrome session found (chrome plugin must run first)''), p)
                else (case sw_targetId w of
                        None \<Rightarrow> (Inl (JsError ''Error'' ''No target_id.txt found (chrome_tab must run first)''), p)
                      | Some targetId \<Rightarrow>
                          (case sw_connect w of
                             Inl err \<Rightarrow> (Inl err, p\<lparr>connects := connects p + 1\<rparr>)
                           | Inr res \<Rightarrow> (res, p\<lparr>connects := connects p + 1\<rparr>)))))"

text \<open>
  The whole script: the enablement check runs at module level, before \<open>main\<close>, and
  exits without printing a result; \<open>main\<close> prints one only for the staticfile skip and
  for a saved screenshot, and its \<open>catch\<close> prints none.
\<close>

definition screenshot_hook :: "string list \<Rightarrow> env \<Rightarrow> bool \<Rightarrow> shot_world \<Rightarrow> proc" where
  "screenshot_hook argv e hasStaticFileOutput w =
     (if \<not> getEnvBool e ''SCREENSHOT_ENABLED'' True
      then proc0\<lparr>exit_code := Some 0\<rparr>
      else
        (let args = parseArgs argv in
         case (args ''url'', args ''snapshot_id'') of
           (Some url, Some snapshotId) \<Rightarrow>
             if hasStaticFileOutput
             then proc0\<lparr>stdout := [ResultLine \<lparr>ar_status = Skipped,
                     ar_output_str = ''staticfile already handled'', ar_fields = []\<rparr>],
                   exit_code := Some 0\<rparr>
             else (case takeScreenshot e w proc0 of
                     (Inl err, p) \<Rightarrow> p\<lparr>exit_code := Some 1\<rparr>
                   | (Inr outputPath, p) \<Rightarrow>
                       p\<lparr>stdout := [ResultLine \<lparr>ar_status = Succeeded,
                            ar_output_str = outputPath, ar_fields = []\<rparr>],
                         exit_code := Some 0\<rparr>)
         | _ \<Rightarrow> proc0\<lparr>exit_code := Some 1\<rparr>))"

section \<open>Static-file downloader (on\_Snapshot\_\_26\_staticfile)\<close>

definition STATIC_CONTENT_TYPES :: "string list" where
  "STATIC_CONTENT_TYPES =
    [''application/pdf'', ''application/msword'',
     ''application/vnd.openxmlformats-officedocument.wordprocessingml.document'',
     ''application/vnd.ms-excel'',
     ''application/vnd.openxmlformats-officedocument.spreadsheetml.sheet'',
     ''application/vnd.ms-powerpoint'',
     ''application/vnd.openxmlformats-officedocument.presentationml.presentation'',
     ''application/rtf'', ''application/epub+zip'',
     ''image/png'', ''image/jpeg'', ''image/gif'', ''image/webp'', ''image/svg+xml'',
     ''image/x-icon'', ''image/bmp'', ''image/tiff'', ''image/avif'', ''image/heic'',
     ''image/heif'',
     ''audio/mpeg'', ''audio/mp3'', ''audio/wav'', ''audio/flac'', ''audio/aac'',
     ''audio/ogg'', ''audio/webm'', ''audio/m4a'', ''audio/opus'',
     ''video/mp4'', ''video/webm'', ''video/x-matroska'', ''video/avi'',
     ''video/quicktime'', ''video/x-ms-wmv'', ''video/x-flv'',
     ''application/zip'', ''application/x-tar'', ''application/gzip'',
     ''application/x-bzip2'', ''application/x-xz'', ''application/x-7z-compressed'',
     ''application/x-rar-compressed'', ''application/vnd.rar'',
     ''application/json'', ''application/xml'', ''text/csv'', ''text/xml'',
     ''application/x-yaml'',
     ''application/octet-stream'', ''application/x-executable'',
     ''application/x-msdos-program'', ''application/x-apple-diskimage'',
     ''application/vnd.debian.binary-package'', ''application/x-rpm'',
     ''application/x-bittorrent'', ''application/wasm'']"

definition STATIC_CONTENT_TYPE_PREFIXES :: "string list" where
  "STATIC_CONTENT_TYPE_PREFIXES =
     [''image/'', ''audio/'', ''video/'', ''application/zip'', ''application/x-'']"

definition isStaticContentType :: "string \<Rightarrow> bool" where
  "isStaticContentType contentType =
     (if contentType = [] then False
      else
        (let ct = toLowerCase (trim (hd (split_char CHR '';'' contentType)))
         in if ct \<in> set STATIC_CONTENT_TYPES then True
            else list_ex (\<lambda>prefix. startsWith ct prefix) STATIC_CONTENT_TYPE_PREFIXES))"

definition filename_char_ok :: "char \<Rightarrow> bool" where
  "filename_char_ok c =
     (c \<in> set ''abcdefghijklmnopqrstuvwxyzABCDEFGHIJKLMNOPQRSTUVWXYZ0123456789._-'')"

text \<open>
  \<open>str.replace(/[^a-zA-Z0-9._-]/g, '_').slice(0, maxLen)\<close> works on UTF-16 code units:
  a character outside the ASCII range becomes one underscore, or two when it lies beyond
  U+FFFF (a four-byte encoding, whose first byte is at least \<open>0xF0\<close>). On the bytes, the
  first byte of such a character yields the underscores and its continuation bytes
  (\<open>0x80\<close> to \<open>0xBF\<close>) yield nothing.
\<close>

fun replace_unsafe :: "string \<Rightarrow> string" where
  "replace_unsafe [] = []"
| "replace_unsafe (c # s) =
     (if filename_char_ok c then c # replace_unsafe s
      else if (0x80 :: nat) \<le> of_char c \<and> of_char c < (0xC0 :: nat) then replace_unsafe s
      else if (0xF0 :: nat) \<le> of_char c then ''__'' @ replace_unsafe s
      else CHR ''_'' # replace_unsafe s)"

definition sanitizeFilename :: "string \<Rightarrow> string" where
  "sanitizeFilename str = take 200 (replace_unsafe str)"

text \<open>\<open>path.basename\<close> on a POSIX path: trailing slashes dropped, then the last segment.\<close>

definition basename :: "string \<Rightarrow> string" where
  "basename p =
     (let q = dropWhile (\<lambda>c. c = CHR ''/'') (rev p)
      in rev (takeWhile (\<lambda>c. c \<noteq> CHR ''/'') q))"

text \<open>
  \<open>getFilenameFromUrl\<close>; \<open>pn url\<close> is the pathname the platform's URL parser returns,
  \<open>None\<close> when it throws.
\<close>

definition getFilenameFromUrl :: "(string \<Rightarrow> string option) \<Rightarrow> string \<Rightarrow> string" where
  "getFilenameFromUrl pn url =
     (case pn url of
        None \<Rightarrow> ''downloaded_file''
      | Some pathname \<Rightarrow>
          sanitizeFilename (if basename pathname = [] then ''downloaded_file''
                            else basename pathname))"

text \<open>
  The regular expression \<open>filename[*]?=["']?([^"';\n]+)\<close>: \<open>filename_match_at\<close> tries it
  at the head of the text and returns the captured group; \<open>filename_match\<close> is the first
  position where it matches.
\<close>

definition filename_match_at :: "string \<Rightarrow> string option" where
  "filename_match_at s =
     (if startsWith s ''filename'' then
        (let r0 = drop 8 s;
             r1 = (if r0 \<noteq> [] \<and> hd r0 = CHR ''*'' then tl r0 else r0)
         in if r1 \<noteq> [] \<and> hd r1 = CHR ''='' then
              (let r2 = tl r1;
                   r3 = (if r2 \<noteq> [] \<and> (hd r2 = CHR 0x22 \<or> hd r2 = CHR 0x27) then tl r2 else r2);
                   g = takeWhile (\<lambda>c. c \<notin> set [CHR 0x22, CHR 0x27, CHR '';'', CHR 0x0A]) r3
               in if g = [] then None else Some g)
            else None)
      else None)"

fun filename_match :: "string \<Rightarrow> string option" where
  "filename_match [] = filename_match_at []"
| "filename_match (c # s) =
     (case filename_match_at (c # s) of
        Some g \<Rightarrow> Some g
      | None \<Rightarrow> filename_match s)"

text \<open>
  A response as the listener reads it: URL, status, the two headers (empty when absent),
  the outcome of reading the body, and the error of the file write if it fails.
\<close>

record sf_response =
  rs_url :: string
  rs_status :: int
  rs_content_type :: string
  rs_content_disposition :: string
  rs_buffer :: "js_error + string"
  rs_write_error :: "js_error option"

text \<open>
  The state of the hook: the process; the awaited \<open>connectToPage\<close> with the outcome it
  will have, while it is pending; whether the response listener is installed; the
  response whose body is being read by the awaited \<open>response.buffer()\<close>; the variables
  of the script; and the files written.
\<close>

record sf_state = proc +
  sf_setup :: "(js_error + unit) option"
  sf_listening :: bool
  sf_pending :: "sf_response option"
  originalUrl :: argval
  firstResponseHandled :: bool
  detectedContentType :: "string option"
  isStaticFile :: bool
  downloadedFilePath :: "string option"
  downloadError :: "string option"
  sf_files :: "(string \<times> string) list"

definition sf_state0 :: sf_state where
  "sf_state0 = \<lparr>stdout = [], exit_code = None, connects = 0, sf_setup = None,
     sf_listening = False, sf_pending = None,
     originalUrl = ArgStr [], firstResponseHandled = False, detectedContentType = None,
     isStaticFile = False, downloadedFilePath = None, downloadError = None, sf_files = []\<rparr>"

text \<open>
  The response listener up to its \<open>await\<close>: the guards, the detection of the content
  type, and for a static file the start of the body download.
\<close>

definition sf_on_response :: "sf_state \<Rightarrow> sf_response \<Rightarrow> sf_state" where
  "sf_on_response st r =
     (if firstResponseHandled st then st
      else if ArgStr (rs_url r) \<noteq> originalUrl st then st
      else if rs_status r < 200 \<or> rs_status r \<ge> 300 then st
      else
        (let ct = trim (hd (split_char CHR '';'' (rs_content_type r)));
             st1 = st\<lparr>firstResponseHandled := True, detectedContentType := Some ct\<rparr>
         in if \<not> isStaticContentType ct then st1
            else st1\<lparr>isStaticFile := True, sf_pending := Some r\<rparr>))"

text \<open>
  The listener after its \<open>await\<close>, when the body read has settled: a rejected read and
  a failing write end in the \<open>catch\<close>, a body over \<open>STATICFILE_MAX_SIZE\<close> is refused,
  anything else is written under the name taken from the content-disposition header or
  else from the URL. The size limit is read from the environment before the \<open>await\<close>;
  the environment of a process does not change.
\<close>

definition sf_on_buffer ::
  "(string \<Rightarrow> string option) \<Rightarrow> env \<Rightarrow> sf_state \<Rightarrow> sf_response \<Rightarrow> sf_state" where
  "sf_on_buffer pn e st r =
     (let maxSize = getEnvInt e ''STATICFILE_MAX_SIZE'' (1024 * 1024 * 1024);
          st2 = st\<lparr>sf_pending := None\<rparr>
      in case rs_buffer r of
           Inl err \<Rightarrow> st2\<lparr>downloadError := Some (err_str err)\<rparr>
         | Inr buffer \<Rightarrow>
             if int (length buffer) > maxSize
             then st2\<lparr>downloadError := Some (''File too large: ''
                     @ dec_nat (length buffer) @ '' bytes > '' @ dec_int maxSize
                     @ '' max'')\<rparr>
             else
               (let filename0 = getFilenameFromUrl pn (rs_url r);
                    contentDisp = rs_content_disposition r;
                    filename =
                      (if str_includes contentDisp ''filename='' then
                         (case filename_match contentDisp of
                            Some g \<Rightarrow> sanitizeFilename (trim g)
                          | None \<Rightarrow> filename0)
                       else filename0)
                in case rs_write_error r of
                     Some err \<Rightarrow> st2\<lparr>downloadError := Some (err_str err)\<rparr>
                   | None \<Rightarrow>
                       st2\<lparr>sf_files := sf_files st2 @ [(filename, buffer)],
                            downloadedFilePath := Some filename\<rparr>))"

text \<open>
  The final result, chosen from the module-level state by truthiness tests: \<open>null\<close>
  and the empty string are both falsy.
\<close>

definition truthy :: "string option \<Rightarrow> bool" where
  "truthy v = (case v of None \<Rightarrow> False | Some s \<Rightarrow> s \<noteq> [])"

definition str_of :: "string option \<Rightarrow> string" where
  "str_of v = (case v of None \<Rightarrow> [] | Some s \<Rightarrow> s)"

definition sf_result :: "sf_state \<Rightarrow> archive_result" where
  "sf_result st =
     (if \<not> truthy (detectedContentType st) then
        \<lparr>ar_status = Skipped, ar_output_str = ''No Content-Type detected'',
         ar_fields = [(''plugin'', ''staticfile'')]\<rparr>
      else if \<not> isStaticFile st then
        \<lparr>ar_status = Skipped,
         ar_output_str = ''Not a static file (Content-Type: ''
            @ str_of (detectedContentType st) @ '')'',
         ar_fields = [(''plugin'', ''staticfile''),
                      (''content_type'', str_of (detectedContentType st))]\<rparr>
      else if truthy (downloadError st) then
        \<lparr>ar_status = Failed, ar_output_str = str_of (downloadError st),
         ar_fields = [(''plugin'', ''staticfile''),
                      (''content_type'', str_of (detectedContentType st))]\<rparr>
      else if truthy (downloadedFilePath st) then
        \<lparr>ar_status = Succeeded, ar_output_str = str_of (downloadedFilePath st),
         ar_fields = [(''plugin'', ''staticfile''),
                      (''content_type'', str_of (detectedContentType st))]\<rparr>
      else
        \<lparr>ar_status = Failed,
         ar_output_str = ''Static file detected but download did not complete'',
         ar_fields = [(''plugin'', ''staticfile''),
                      (''content_type'', str_of (detectedContentType st))]\<rparr>)"

definition sf_handleShutdown :: "sf_state \<Rightarrow> sf_state" where
  "sf_handleShutdown st =
     st\<lparr>stdout := stdout st @ [ResultLine (sf_result st)], exit_code := Some 0\<rparr>"

text \<open>
  \<open>main\<close>: after the shared opening the signal handlers are registered, then
  \<open>setupStaticFileListener\<close> is called and awaited; it calls \<open>connectToPage\<close>, whose
  outcome \<open>conn\<close> is given by the environment.
\<close>

definition sf_main :: "string list \<Rightarrow> env \<Rightarrow> (js_error + unit) \<Rightarrow> sf_state" where
  "sf_main argv e conn =
     (case hook_prologue ''STATICFILE_ENABLED'' argv e of
        Inl p \<Rightarrow> sf_state0\<lparr>stdout := stdout p, exit_code := exit_code p\<rparr>
      | Inr url \<Rightarrow> sf_state0\<lparr>originalUrl := url, connects := 1, sf_setup := Some conn\<rparr>)"

text \<open>
  When the connection settles: after a success the response listener is installed;
  after a failure the \<open>catch\<close> of \<open>main\<close> prints the failed result and exits with
  code 1.
\<close>

definition sf_settle :: "(js_error + unit) \<Rightarrow> sf_state \<Rightarrow> sf_state" where
  "sf_settle conn st =
     (case conn of
        Inr _ \<Rightarrow> st\<lparr>sf_setup := None, sf_listening := True\<rparr>
      | Inl err \<Rightarrow> st\<lparr>sf_setup := None, stdout := stdout st @ [failed_line err],
                       exit_code := Some 1\<rparr>)"

text \<open>
  What happens to the process: the awaited connection settles, a response arrives, the
  awaited body read settles, or a termination signal is delivered. A process that has
  exited does nothing more. The signal handlers exist from the start; responses are seen
  once the listener is installed.
\<close>

datatype sf_event = SfSetupSettled | SfResponse sf_response | SfBuffered | SfSignal

definition sf_step ::
  "(string \<Rightarrow> string option) \<Rightarrow> env \<Rightarrow> sf_state \<Rightarrow> sf_event \<Rightarrow> sf_state" where
  "sf_step pn e st ev =
     (if exit_code st \<noteq> None then st
      else (case ev of
              SfSetupSettled \<Rightarrow>
                (case sf_setup st of None \<Rightarrow> st | Some conn \<Rightarrow> sf_settle conn st)
            | SfResponse r \<Rightarrow> if sf_listening st then sf_on_response st r else st
            | SfBuffered \<Rightarrow>
                (case sf_pending st of None \<Rightarrow> st | Some r \<Rightarrow> sf_on_buffer pn e st r)
            | SfSignal \<Rightarrow> sf_handleShutdown st))"

definition sf_run ::
  "(string \<Rightarrow> string option) \<Rightarrow> string list \<Rightarrow> env \<Rightarrow> (js_error + unit) \<Rightarrow> sf_event list
     \<Rightarrow> sf_state" where
  "sf_run pn argv e conn evs = foldl (sf_step pn e) (sf_main argv e conn) evs"

text \<open>An environment given as a list of variable bindings.\<close>

definition env_of :: "(string \<times> string) list \<Rightarrow> env" where
  "env_of kvs = map_of kvs"

section \<open>Sample inputs for concrete runs\<close>

text \<open>
  A small stand-in for the platform's URL parser, used only to run the hooks on concrete
  \<open>http\<close> and \<open>https\<close> URLs without user information: the hostname is the text
  between the scheme and the first of \<open>/ : ? #\<close>, or a bracketed IPv6 literal with its
  brackets, in lower case; the pathname runs from the first \<open>/\<close> after the scheme to the
  first of \<open>? #\<close>. The theorems hold for every parser.
\<close>

definition simple_hostname :: "string \<Rightarrow> string option" where
  "simple_hostname url =
     (let rest = (if startsWith url ''http://'' then Some (drop 7 url)
                  else if startsWith url ''https://'' then Some (drop 8 url)
                  else None)
      in case rest of
           None \<Rightarrow> None
         | Some r \<Rightarrow>
             Some (toLowerCase
                     (if startsWith r ''['' then takeWhile (\<lambda>c. c \<noteq> CHR '']'') r @ '']''
                      else takeWhile (\<lambda>c. c \<notin> set ''/:?#'') r)))"

definition simple_pathname :: "string \<Rightarrow> string option" where
  "simple_pathname url =
     (if startsWith url ''http://''
      then Some (takeWhile (\<lambda>c. c \<notin> set ''?#'')
                   (dropWhile (\<lambda>c. c \<noteq> CHR ''/'') (drop 7 url)))
      else if startsWith url ''https://''
      then Some (takeWhile (\<lambda>c. c \<notin> set ''?#'')
                   (dropWhile (\<lambda>c. c \<noteq> CHR ''/'') (drop 8 url)))
      else None)"

text \<open>An environment that switches four plugins off, in four spellings.\<close>

definition flags_off :: env where
  "flags_off = env_of [(''DNS_ENABLED'', ''false''), (''SSL_ENABLED'', ''0''),
     (''STATICFILE_ENABLED'', ''no''), (''SCREENSHOT_ENABLED'', ''off'')]"

subsection \<open>Inputs for the static-file scenario\<close>

text \<open>
  The scenario of a PDF served as an attachment: the header value
  \<open>attachment; filename="x.pdf"\<close>, a response carrying it, a 404 response for the same
  URL, and the result records the hook may then print.
\<close>

definition scenarioA_disposition :: string where
  "scenarioA_disposition = ''attachment; filename='' @ [CHR 0x22] @ ''x.pdf'' @ [CHR 0x22]"

definition pdf_response :: "string \<Rightarrow> int \<Rightarrow> string \<Rightarrow> sf_response" where
  "pdf_response u s body = \<lparr>rs_url = u, rs_status = s, rs_content_type = ''application/pdf'',
     rs_content_disposition = scenarioA_disposition, rs_buffer = Inr body, rs_write_error = None\<rparr>"

text \<open>
  An event that leaves a connected hook waiting for its first inspected response: a
  response for another URL, or one whose status is outside 200..299; also a settling
  when nothing is pending. And an event that leaves a body read pending: anything but
  its settling and a termination signal.
\<close>

fun sf_ignored :: "string \<Rightarrow> sf_event \<Rightarrow> bool" where
  "sf_ignored u (SfResponse r) = (rs_url r \<noteq> u \<or> rs_status r < 200 \<or> rs_status r \<ge> 300)"
| "sf_ignored u SfSetupSettled = True"
| "sf_ignored u SfBuffered = True"
| "sf_ignored u SfSignal = False"

fun sf_waiting :: "sf_event \<Rightarrow> bool" where
  "sf_waiting (SfResponse r) = True"
| "sf_waiting SfSetupSettled = True"
| "sf_waiting SfBuffered = False"
| "sf_waiting SfSignal = False"

definition not_found_response :: "string \<Rightarrow> sf_response" where
  "not_found_response u = \<lparr>rs_url = u, rs_status = 404, rs_content_type = ''text/html'',
     rs_content_disposition = [], rs_buffer = Inr ''gone'', rs_write_error = None\<rparr>"

definition pdf_result :: archive_result where
  "pdf_result = \<lparr>ar_status = Succeeded, ar_output_str = ''x.pdf'',
      ar_fields = [(''plugin'', ''staticfile''), (''content_type'', ''application/pdf'')]\<rparr>"

definition pdf_failed :: "string \<Rightarrow> archive_result" where
  "pdf_failed message = \<lparr>ar_status = Failed, ar_output_str = message,
      ar_fields = [(''plugin'', ''staticfile''), (''content_type'', ''application/pdf'')]\<rparr>"

definition too_large_message :: "nat \<Rightarrow> int \<Rightarrow> string" where
  "too_large_message bytes maxSize =
     ''File too large: '' @ dec_nat bytes @ '' bytes > '' @ dec_int maxSize @ '' max''"


subsection \<open>Vocabulary for the DNS recorder\<close>

text \<open>
  The key under which a record of \<open>dns.jsonl\<close> was entered in \<open>seenResolutions\<close>:
  \<open>hostname:address\<close> for a resolution, \<open>hostname:NXDOMAIN\<close> for a failed one.
\<close>

definition rec_key :: "dns_record \<Rightarrow> string" where
  "rec_key r = dr_hostname r @ '':'' @ (case dr_ip r of Some a \<Rightarrow> a | None \<Rightarrow> ''NXDOMAIN'')"

text \<open>The records of a (hostname, address) pair; the address \<open>None\<close> is a failed resolution.\<close>

definition records_for :: "string \<Rightarrow> string option \<Rightarrow> dns_record list \<Rightarrow> dns_record list" where
  "records_for h ip rs = filter (\<lambda>r. dr_hostname r = h \<and> dr_ip r = ip) rs"

text \<open>
  The content of \<open>dns.jsonl\<close> after a run in which the setup succeeds and settles, and
  the events \<open>evs\<close> follow.
\<close>

definition dns_output ::
  "(string \<Rightarrow> string option) \<Rightarrow> string list \<Rightarrow> env \<Rightarrow> dns_event list \<Rightarrow> dns_record list" where
  "dns_output hn argv e evs = dns_file (dns_run hn argv e (Inr ()) (DnsSetupSettled # evs))"

text \<open>
  A response event that resolves hostname \<open>h\<close> to address \<open>a\<close>; \<open>resolved_in\<close> adds what
  the listener requires of the pair before it records it.
\<close>

fun resolves :: "(string \<Rightarrow> string option) \<Rightarrow> string \<Rightarrow> string \<Rightarrow> dns_event \<Rightarrow> bool" where
  "resolves hn h a (ResponseReceived requestId url ip port ok) =
     (url \<noteq> [] \<and> ip = a \<and> hn url = Some h)"
| "resolves hn h a (RequestWillBeSent requestId url) = False"
| "resolves hn h a (LoadingFailed requestId errorText ok) = False"
| "resolves hn h a DnsSignal = False"
| "resolves hn h a DnsSetupSettled = False"

text \<open>
  A sample event sequence: one host resolved four times to three addresses, and one
  host whose resolution fails twice.
\<close>

definition dns_example_events :: "dns_event list" where
  "dns_example_events =
     [RequestWillBeSent ''r0'' ''http://gone.example/'',
      ResponseReceived ''r1'' ''http://example.com/'' ''93.184.216.34'' (Some 80) True,
      ResponseReceived ''r2'' ''http://example.com/a'' ''93.184.216.34'' (Some 80) True,
      ResponseReceived ''r3'' ''http://example.com/b'' ''93.184.216.35'' (Some 80) True,
      ResponseReceived ''r4'' ''http://EXAMPLE.com/c'' ''[2606:2800:220:1::1]'' (Some 80) True,
      LoadingFailed ''r0'' ''net::ERR_NAME_NOT_RESOLVED'' True,
      LoadingFailed ''r0'' ''net::ERR_NAME_NOT_RESOLVED'' True]"

definition resolved_in ::
  "(string \<Rightarrow> string option) \<Rightarrow> string \<Rightarrow> string \<Rightarrow> dns_event list \<Rightarrow> bool" where
  "resolved_in hn h a evs =
     (h \<noteq> [] \<and> a \<noteq> [] \<and> h \<noteq> a \<and> a \<noteq> ''NXDOMAIN'' \<and> list_ex (resolves hn h a) evs)"

text \<open>The append to \<open>dns.jsonl\<close> that the event may cause does not fail.\<close>

fun write_ok :: "dns_event \<Rightarrow> bool" where
  "write_ok (ResponseReceived requestId url ip port ok) = ok"
| "write_ok (LoadingFailed requestId errorText ok) = ok"
| "write_ok (RequestWillBeSent requestId url) = True"
| "write_ok DnsSignal = True"
| "write_ok DnsSetupSettled = True"

text \<open>
  The URL an event carries has a hostname without a colon (a DNS name or an IPv4
  literal, not a bracketed IPv6 literal). When this holds of the events of a run, the
  text key \<open>hostname:address\<close> determines the pair.
\<close>

definition colon_free_url :: "(string \<Rightarrow> string option) \<Rightarrow> string \<Rightarrow> bool" where
  "colon_free_url hn url = (case hn url of None \<Rightarrow> True | Some h \<Rightarrow> CHR '':'' \<notin> set h)"

fun colon_free_event :: "(string \<Rightarrow> string option) \<Rightarrow> dns_event \<Rightarrow> bool" where
  "colon_free_event hn (RequestWillBeSent requestId url) = colon_free_url hn url"
| "colon_free_event hn (ResponseReceived requestId url ip port ok) = colon_free_url hn url"
| "colon_free_event hn (LoadingFailed requestId errorText ok) = True"
| "colon_free_event hn DnsSignal = True"
| "colon_free_event hn DnsSetupSettled = True"

definition dns_cf_inv :: "(string \<Rightarrow> string option) \<Rightarrow> dns_state \<Rightarrow> bool" where
  "dns_cf_inv hn st =
     ((\<forall>requestId url. requestUrls st requestId = Some url \<longrightarrow> colon_free_url hn url)
      \<and> (\<forall>r\<in>set (dns_file st). CHR '':'' \<notin> set (dr_hostname r)))"

text \<open>
  What every written record satisfies, the effect of one event on the file and the set
  of seen keys, and the invariant of the run.
\<close>

definition made_by :: "(string \<Rightarrow> string option) \<Rightarrow> dns_record \<Rightarrow> bool" where
  "made_by hn r =
     ((\<exists>url. hn url = Some (dr_hostname r))
      \<and> (dr_type r = ''NXDOMAIN'') = (dr_ip r = None))"

definition dns_effect ::
  "(string \<Rightarrow> string option) \<Rightarrow> bool \<Rightarrow> dns_state \<Rightarrow> dns_state \<Rightarrow> bool" where
  "dns_effect hn ok st st' =
     ((dns_file st' = dns_file st \<and> seenResolutions st' = seenResolutions st
         \<and> recordCount st' = recordCount st)
      \<or> (\<exists>r. made_by hn r \<and> rec_key r \<notin> seenResolutions st
            \<and> seenResolutions st' = insert (rec_key r) (seenResolutions st)
            \<and> (if ok then dns_file st' = dns_file st @ [r]
                          \<and> recordCount st' = recordCount st + 1
                else dns_file st' = dns_file st \<and> recordCount st' = recordCount st)))"

definition dns_inv :: "(string \<Rightarrow> string option) \<Rightarrow> dns_state \<Rightarrow> bool" where
  "dns_inv hn st =
     (distinct (map rec_key (dns_file st))
      \<and> set (map rec_key (dns_file st)) \<subseteq> seenResolutions st
      \<and> recordCount st = length (dns_file st)
      \<and> (\<forall>r\<in>set (dns_file st). made_by hn r))"

definition dns_live :: "dns_state \<Rightarrow> bool" where
  "dns_live st =
     (exit_code st = None \<and> \<not> dns_killed st \<and> dns_setup st = None \<and> dns_listening st)"


section \<open>Session launcher and configurator hooks\<close>




















section \<open>Tab allocator (on\_Snapshot\_\_10\_chrome\_tab)\<close>

text \<open>
  What the hook meets: the browser binary found or not, the version string it reports
  (empty when the query fails), the files of the file system (absent, unreadable, or with
  a content), the liveness probe \<open>process.kill(pid, 0)\<close>, and the outcome of opening a
  tab on the shared browser (the new target id).
\<close>

datatype fs_file = Unreadable | Content string

record tab_world =
  tw_binary :: "string option"
  tw_version :: string
  tw_fs :: "string \<Rightarrow> fs_file option"
  tw_alive :: "int \<Rightarrow> bool"
  tw_create :: "js_error + string"

text \<open>\<open>path.join\<close> of a directory and a name; the file system above is keyed by the result.\<close>

definition path_join :: "string \<Rightarrow> string \<Rightarrow> string" where
  "path_join dir name = dir @ ''/'' @ name"

record crawl_session =
  cs_cdpUrl :: string
  cs_pid :: int

text \<open>
  \<open>findCrawlChromeSession\<close>: both marker files must exist and be readable, the process id
  must parse, and the probe must succeed; every other case, and every exception, is
  \<open>null\<close>.
\<close>

definition findCrawlChromeSession :: "env \<Rightarrow> tab_world \<Rightarrow> crawl_session option" where
  "findCrawlChromeSession e w =
     (let crawlOutputDir = getEnv e ''CRAWL_OUTPUT_DIR'' [] in
      if crawlOutputDir = [] then None
      else
        (let crawlChromeDir = path_join crawlOutputDir ''chrome'';
             cdpFile = path_join crawlChromeDir ''cdp_url.txt'';
             pidFile = path_join crawlChromeDir ''chrome.pid''
         in case (tw_fs w cdpFile, tw_fs w pidFile) of
              (Some (Content cdp), Some (Content pidText)) \<Rightarrow>
                (case parseInt (trim pidText) of
                   None \<Rightarrow> None
                 | Some pid \<Rightarrow>
                     if tw_alive w pid then Some \<lparr>cs_cdpUrl = trim cdp, cs_pid = pid\<rparr>
                     else None)
            | _ \<Rightarrow> None))"

text \<open>
  The state of the hook: the process; the awaited \<open>createTabInExistingChrome\<close> with
  its arguments, while it is pending; whether \<open>main\<close> has reached its last line, after
  which nothing is left that keeps the process running; the module-level result
  variables; the files written to its output directory (empty at the start); the
  processes it has spawned (binary and command line); and the tabs it has closed.
\<close>

record tab_state = proc +
  tab_pending :: "(string \<times> argval \<times> int) option"
  tab_resident :: bool
  finalStatus :: status
  finalOutput :: string
  finalError :: string
  cmdVersion :: string
  finalized :: bool
  tab_files :: "(string \<times> string) list"
  tab_spawned :: "(string \<times> string list) list"
  tab_closed :: "string list"

definition tab_state0 :: tab_state where
  "tab_state0 = \<lparr>stdout = [], exit_code = None, connects = 0, tab_pending = None,
     tab_resident = False, finalStatus = Failed,
     finalOutput = [], finalError = [], cmdVersion = [], finalized = False, tab_files = [],
     tab_spawned = [], tab_closed = []\<rparr>"

definition tab_emitResult :: "status option \<Rightarrow> tab_state \<Rightarrow> tab_state" where
  "tab_emitResult statusOverride st =
     (if finalized st then st
      else
        (let status = (case statusOverride of Some s \<Rightarrow> s | None \<Rightarrow> finalStatus st);
             outputStr = (if status = Succeeded then finalOutput st
                          else if finalError st \<noteq> [] then finalError st
                          else finalOutput st)
         in st\<lparr>finalized := True,
               stdout := stdout st @ [ResultLine \<lparr>ar_status = status, ar_output_str = outputStr,
                  ar_fields = (if cmdVersion st \<noteq> [] then [(''cmd_version'', cmdVersion st)]
                               else [])\<rparr>]\<rparr>))"

text \<open>
  \<open>createTabInExistingChrome\<close> up to its first \<open>await\<close>: the notice on standard output
  and the start of the connection. And from there on, once the awaited steps have
  settled with the outcome \<open>tw_create w\<close>: the four marker files. A \<open>url\<close> that is the
  boolean \<open>true\<close> makes the last write throw.
\<close>

definition createTabInExistingChrome_begin :: "string \<Rightarrow> tab_state \<Rightarrow> tab_state" where
  "createTabInExistingChrome_begin cdpUrl st =
     st\<lparr>stdout := stdout st
           @ [TextLine (''[*] Connecting to existing Chrome session: '' @ cdpUrl)],
        connects := connects st + 1\<rparr>"

definition createTabInExistingChrome_end ::
  "tab_world \<Rightarrow> string \<Rightarrow> argval \<Rightarrow> int \<Rightarrow> tab_state \<Rightarrow> (js_error + string) \<times> tab_state" where
  "createTabInExistingChrome_end w cdpUrl url pid st =
     (case tw_create w of
        Inl err \<Rightarrow> (Inl err, st)
      | Inr targetId \<Rightarrow>
          (let st2 = st\<lparr>tab_files := tab_files st
                        @ [(''cdp_url.txt'', cdpUrl), (''chrome.pid'', dec_int pid),
                           (''target_id.txt'', targetId)]\<rparr>
           in case url of
                ArgStr u \<Rightarrow> (Inr targetId, st2\<lparr>tab_files := tab_files st2 @ [(''url.txt'', u)]\<rparr>)
              | ArgTrue \<Rightarrow>
                  (Inl (JsError ''TypeError''
                     (''The '' @ [CHR 0x22] @ ''data'' @ [CHR 0x22] @ '' argument must be of type string or an instance of Buffer, TypedArray, or DataView. Received type boolean (true)'')),
                   st2)))"

definition arg_text :: "argval \<Rightarrow> string" where
  "arg_text v = (case v of ArgStr s \<Rightarrow> s | ArgTrue \<Rightarrow> ''true'')"

definition no_session_error :: string where
  "no_session_error =
     ''No crawl Chrome session found (CRAWL_OUTPUT_DIR missing or chrome not running)''"

text \<open>
  The standalone fallback \<open>launchNewChrome\<close>: its command line, and its opening up to the
  moment the spawned process id is written. \<open>main\<close> below contains no call of it.
\<close>

definition launchNewChrome_args :: "nat \<Rightarrow> int \<Rightarrow> int \<Rightarrow> bool \<Rightarrow> bool \<Rightarrow> string list" where
  "launchNewChrome_args debugPort width height headless checkSsl =
     [''--remote-debugging-port='' @ dec_nat debugPort,
      ''--remote-debugging-address=127.0.0.1'',
      ''--no-sandbox'',
      ''--disable-setuid-sandbox'',
      ''--disable-dev-shm-usage'',
      ''--disable-gpu'',
      ''--disable-sync'',
      ''--no-first-run'',
      ''--no-default-browser-check'',
      ''--disable-default-apps'',
      ''--disable-infobars'',
      ''--disable-blink-features=AutomationControlled'',
      ''--disable-component-update'',
      ''--disable-domain-reliability'',
      ''--disable-breakpad'',
      ''--disable-background-networking'',
      ''--disable-background-timer-throttling'',
      ''--disable-backgrounding-occluded-windows'',
      ''--disable-renderer-backgrounding'',
      ''--disable-ipc-flooding-protection'',
      ''--password-store=basic'',
      ''--use-mock-keychain'',
      ''--font-render-hinting=none'',
      ''--force-color-profile=srgb'',
      ''--window-size='' @ dec_int width @ '','' @ dec_int height]
     @ (if headless then [''--headless=new''] else [])
     @ (if checkSsl then [] else [''--ignore-certificate-errors''])
     @ [''about:blank'']"

definition launchNewChrome_spawn ::
  "string \<Rightarrow> string list \<Rightarrow> nat \<Rightarrow> nat \<Rightarrow> tab_state \<Rightarrow> tab_state" where
  "launchNewChrome_spawn binary chromeArgs debugPort pid st =
     st\<lparr>stdout := stdout st
           @ [TextLine (''[*] Launching new Chrome on port: '' @ dec_nat debugPort),
              TextLine (''[*] Launched Chrome (PID: '' @ dec_nat pid
                        @ ''), waiting for debug port...'')],
        tab_spawned := tab_spawned st @ [(binary, chromeArgs)],
        tab_files := tab_files st @ [(''chrome.pid'', dec_nat pid)]\<rparr>"

text \<open>
  The end of \<open>main\<close>: the module-level variables are set; a status other than succeeded
  prints the result and exits 1; otherwise the notice is printed and \<open>main\<close> awaits a
  promise that never settles.
\<close>

definition tab_finish :: "status \<Rightarrow> string \<Rightarrow> string \<Rightarrow> string \<Rightarrow> tab_state \<Rightarrow> tab_state" where
  "tab_finish status output error version st =
     (let st1 = st\<lparr>finalStatus := status, finalOutput := output, finalError := error,
                    cmdVersion := version\<rparr>
      in if status \<noteq> Succeeded
         then (tab_emitResult (Some status) st1)\<lparr>exit_code := Some 1\<rparr>
         else st1\<lparr>stdout := stdout st1
                    @ [TextLine ''[*] Chrome tab created, waiting for cleanup signal...''],
                  tab_resident := True\<rparr>)"

text \<open>
  \<open>main\<close> up to its first \<open>await\<close>. Without a usage argument, a browser binary or a
  live session it has exited when it returns; with a session it waits for the tab.
\<close>

definition tab_main :: "string list \<Rightarrow> env \<Rightarrow> tab_world \<Rightarrow> tab_state" where
  "tab_main argv e w =
     (let args = parseArgs argv;
          crawlId = (case args ''crawl_id'' of Some v \<Rightarrow> arg_text v
                     | None \<Rightarrow> getEnv e ''CRAWL_ID'' [])
      in case (args ''url'', args ''snapshot_id'') of
           (Some url, Some snapshotId) \<Rightarrow>
             (case tw_binary w of
                None \<Rightarrow> tab_state0\<lparr>exit_code := Some 1\<rparr>
              | Some binary \<Rightarrow>
                  (case findCrawlChromeSession e w of
                     Some crawlSession \<Rightarrow>
                       (createTabInExistingChrome_begin (cs_cdpUrl crawlSession)
                          (tab_state0\<lparr>stdout := [TextLine
                             (''[*] Found existing Chrome session from crawl '' @ crawlId)]\<rparr>))
                       \<lparr>tab_pending := Some (cs_cdpUrl crawlSession, url, cs_pid crawlSession)\<rparr>
                   | None \<Rightarrow>
                       tab_finish Failed [] no_session_error (tw_version w) tab_state0))
         | _ \<Rightarrow> tab_state0\<lparr>exit_code := Some 1\<rparr>)"

text \<open>\<open>main\<close> from the moment the awaited tab creation has settled.\<close>

definition tab_settle :: "tab_world \<Rightarrow> tab_state \<Rightarrow> tab_state" where
  "tab_settle w st =
     (case tab_pending st of
        None \<Rightarrow> st
      | Some (cdpUrl, url, pid) \<Rightarrow>
          (case createTabInExistingChrome_end w cdpUrl url pid (st\<lparr>tab_pending := None\<rparr>) of
             (Inr targetId, st1) \<Rightarrow>
               tab_finish Succeeded ''.'' [] (tw_version w)
                 (st1\<lparr>stdout := stdout st1
                     @ [TextLine ''[+] Chrome tab ready'',
                        TextLine (''[+] CDP URL: '' @ cdpUrl),
                        TextLine (''[+] Page target ID: '' @ targetId)]\<rparr>)
           | (Inl err, st1) \<Rightarrow>
               tab_finish Failed [] (err_str err) (tw_version w) st1))"

text \<open>
  The signal handler, registered when the script is loaded: it closes this snapshot's
  tab when the marker files it wrote exist (\<open>page_found\<close>: the tab is still open),
  prints the result unless one was printed, and exits. It is taken as one step.
\<close>

definition tab_cleanup :: "bool \<Rightarrow> tab_state \<Rightarrow> tab_state" where
  "tab_cleanup page_found st =
     (let st1 = (case (map_of (tab_files st) ''cdp_url.txt'', map_of (tab_files st) ''target_id.txt'') of
                   (Some cdpUrl, Some targetId) \<Rightarrow>
                     (if page_found
                      then st\<lparr>connects := connects st + 1,
                              tab_closed := tab_closed st @ [trim targetId]\<rparr>
                      else st\<lparr>connects := connects st + 1\<rparr>)
                 | _ \<Rightarrow> st)
      in (tab_emitResult None st1)\<lparr>exit_code := Some (if finalStatus st1 = Succeeded then 0 else 1)\<rparr>)"

text \<open>
  What happens to the process: the awaited tab creation settles, a termination signal is
  delivered, or the event loop finds nothing left to wait for. The last ends a process
  whose \<open>main\<close> has reached its final line: it has disconnected from the browser, and
  neither the pending promise nor the signal handlers keep it running; it then exits
  with code 0 and prints nothing.
\<close>

datatype tab_event = TabSettled | TabSignal bool | TabLoopEmpty

definition tab_step :: "tab_world \<Rightarrow> tab_state \<Rightarrow> tab_event \<Rightarrow> tab_state" where
  "tab_step w st ev =
     (if exit_code st \<noteq> None then st
      else (case ev of
              TabSettled \<Rightarrow> tab_settle w st
            | TabSignal page_found \<Rightarrow> tab_cleanup page_found st
            | TabLoopEmpty \<Rightarrow> if tab_resident st then st\<lparr>exit_code := Some 0\<rparr> else st))"

definition tab_run :: "string list \<Rightarrow> env \<Rightarrow> tab_world \<Rightarrow> tab_event list \<Rightarrow> tab_state" where
  "tab_run argv e w evs = foldl (tab_step w) (tab_main argv e w) evs"

text \<open>Sample worlds: no browser binary; a session whose recorded process is dead.\<close>

definition fs_of :: "(string \<times> fs_file) list \<Rightarrow> string \<Rightarrow> fs_file option" where
  "fs_of files = map_of files"

definition nothing_alive :: "int \<Rightarrow> bool" where
  "nothing_alive pid = False"

definition world_no_binary :: tab_world where
  "world_no_binary = \<lparr>tw_binary = None, tw_version = [], tw_fs = fs_of [],
     tw_alive = nothing_alive, tw_create = Inr ''T1''\<rparr>"

definition world_dead_session :: tab_world where
  "world_dead_session = \<lparr>tw_binary = Some ''/usr/bin/chromium'',
     tw_version = ''Chromium 120.0'',
     tw_fs = fs_of [(''/data/crawl/chrome/cdp_url.txt'',
                      Content ''ws://127.0.0.1:9222/devtools/browser/b''),
                    (''/data/crawl/chrome/chrome.pid'', Content ''4242'')],
     tw_alive = nothing_alive, tw_create = Inr ''T1''\<rparr>"

text \<open>
  No live crawl-level session: the crawl directory is not configured, a marker file is
  missing or unreadable, or the recorded process id does not parse or is not alive.
\<close>

definition no_live_session :: "env \<Rightarrow> tab_world \<Rightarrow> bool" where
  "no_live_session e w =
     (let dir = path_join (getEnv e ''CRAWL_OUTPUT_DIR'' []) ''chrome'' in
      getEnv e ''CRAWL_OUTPUT_DIR'' [] = []
      \<or> tw_fs w (path_join dir ''cdp_url.txt'') \<in> {None, Some Unreadable}
      \<or> tw_fs w (path_join dir ''chrome.pid'') \<in> {None, Some Unreadable}
      \<or> (case tw_fs w (path_join dir ''chrome.pid'') of
            Some (Content pidText) \<Rightarrow>
              (case parseInt (trim pidText) of None \<Rightarrow> True | Some pid \<Rightarrow> \<not> tw_alive w pid)
          | _ \<Rightarrow> True))"


section \<open>Zombie reaper (chrome\_utils, killZombieChrome)\<close>

text \<open>
  One marker file collected by \<open>findChromePidFiles\<close>, with what each system call of the
  loop body returns for it when it is made: the modification time of the crawl directory
  (\<open>None\<close>: \<open>statSync\<close> throws), the text of the marker file (\<open>None\<close>: the read
  throws), whether the liveness probe \<open>process.kill(pid, 0)\<close> succeeds, whether
  \<open>SIGKILL\<close> to the process group and to the single process succeed, and whether the
  unlink succeeds.
\<close>

record candidate =
  pidFile :: string
  crawlDir :: string
  c_mtimeMs :: "int option"
  c_pidText :: "string option"
  c_alive :: bool
  c_group_kill_ok :: bool
  c_single_kill_ok :: bool
  c_unlink_ok :: bool

text \<open>
  The calls the loop makes, in order (a probe is signal 0, not a kill), the number of
  zombies killed and the marker files actually removed.
\<close>

datatype reap_action = Probe int | SigKill int | Unlink string

record reap_state =
  killed :: nat
  reap_actions :: "reap_action list"
  reap_removed :: "string list"

definition reap_state0 :: reap_state where
  "reap_state0 = \<lparr>killed = 0, reap_actions = [], reap_removed = []\<rparr>"

text \<open>\<open>try { fs.unlinkSync(pidFile); } catch (e) {}\<close>\<close>

definition unlinkSync :: "candidate \<Rightarrow> reap_state \<Rightarrow> reap_state" where
  "unlinkSync c st =
     st\<lparr>reap_actions := reap_actions st @ [Unlink (pidFile c)],
        reap_removed := (if c_unlink_ok c then reap_removed st @ [pidFile c]
                         else reap_removed st)\<rparr>"

text \<open>
  The crawl directory is stale when it was not modified within the last five minutes;
  the recorded process id is the one the loop accepts (parsed, not \<open>NaN\<close>, positive).
\<close>

definition is_stale :: "int \<Rightarrow> candidate \<Rightarrow> bool" where
  "is_stale now c =
     (case c_mtimeMs c of None \<Rightarrow> False | Some mtimeMs \<Rightarrow> \<not> mtimeMs > now - 300000)"

definition recorded_pid :: "candidate \<Rightarrow> int option" where
  "recorded_pid c =
     (case c_pidText c of
        None \<Rightarrow> None
      | Some text \<Rightarrow>
          (case parseInt (trim text) of
             None \<Rightarrow> None
           | Some pid \<Rightarrow> if pid \<le> 0 then None else Some pid))"

text \<open>The body of the loop over the collected marker files in \<open>killZombieChrome\<close>.\<close>

definition reap_one :: "int \<Rightarrow> reap_state \<Rightarrow> candidate \<Rightarrow> reap_state" where
  "reap_one now st c =
     (let fiveMinutesAgo = now - 300000 in
      case c_mtimeMs c of
        None \<Rightarrow> st
      | Some mtimeMs \<Rightarrow>
          if mtimeMs > fiveMinutesAgo then st
          else
            (case c_pidText c of
               None \<Rightarrow> st
             | Some text \<Rightarrow>
                 (case parseInt (trim text) of
                    None \<Rightarrow> st
                  | Some pid \<Rightarrow>
                      if pid \<le> 0 then st
                      else
                        (let st1 = st\<lparr>reap_actions := reap_actions st @ [Probe pid]\<rparr> in
                         if \<not> c_alive c then unlinkSync c st1
                         else
                           (let st2 = st1\<lparr>reap_actions := reap_actions st1 @ [SigKill (- pid)]\<rparr>
                            in if c_group_kill_ok c
                               then unlinkSync c (st2\<lparr>killed := killed st2 + 1\<rparr>)
                               else
                                 (let st3 = st2\<lparr>reap_actions := reap_actions st2 @ [SigKill pid]\<rparr>
                                  in if c_single_kill_ok c
                                     then unlinkSync c (st3\<lparr>killed := killed st3 + 1\<rparr>)
                                     else st3))))))"

definition reap_all :: "int \<Rightarrow> candidate list \<Rightarrow> reap_state" where
  "reap_all now chromePids = foldl (reap_one now) reap_state0 chromePids"

text \<open>A sample marker file recording process 4242.\<close>

definition sample_candidate :: "int \<Rightarrow> bool \<Rightarrow> bool \<Rightarrow> bool \<Rightarrow> candidate" where
  "sample_candidate mtimeMs alive group_ok single_ok =
     \<lparr>pidFile = ''/data/crawl1/chrome/chrome.pid'', crawlDir = ''/data/crawl1'',
      c_mtimeMs = Some mtimeMs, c_pidText = Some ''4242'', c_alive = alive,
      c_group_kill_ok = group_ok, c_single_kill_ok = single_ok, c_unlink_ok = True\<rparr>"


section \<open>Cookie import (on\_Crawl\_\_90\_chrome\_launch)\<close>

text \<open>A cookie record as built by \<open>parseCookiesTxt\<close>; \<open>expires\<close> is set only when positive.\<close>

record cookie =
  ck_name :: string
  ck_value :: string
  ck_domain :: string
  ck_path :: string
  ck_secure :: bool
  ck_httpOnly :: bool
  ck_expires :: "int option"



text \<open>
  The head of the loop body: the line is trimmed; blank lines and comments are passed
  over (and not counted); the \<open>#HttpOnly_\<close> prefix marks an http-only cookie.
\<close>

definition data_line :: "string \<Rightarrow> (bool \<times> string) option" where
  "data_line rawLine =
     (let line = trim rawLine in
      if line = [] then None
      else if startsWith line ''#HttpOnly_'' then Some (True, drop (length ''#HttpOnly_'') line)
      else if startsWith line ''#'' then None
      else Some (False, line))"

text \<open>
  The rest of the loop body on one line: it is passed over, counted as skipped, or
  turned into a cookie. \<open>cookie_domain\<close> holds the two assignments to \<open>domain\<close>.
\<close>

datatype line_result = Ignored | Malformed | Parsed cookie

definition cookie_domain :: "bool \<Rightarrow> string \<Rightarrow> string" where
  "cookie_domain includeSubdomains domainRaw =
     (let domain = domainRaw;
          domain = (if includeSubdomains \<and> \<not> startsWith domain ''.'' then ''.'' @ domain
                    else domain);
          domain = (if \<not> includeSubdomains \<and> startsWith domain ''.'' then drop 1 domain
                    else domain)
      in domain)"

definition parse_cookie_line :: "string \<Rightarrow> line_result" where
  "parse_cookie_line rawLine =
     (case data_line rawLine of
        None \<Rightarrow> Ignored
      | Some (httpOnly, dataLine) \<Rightarrow>
          (let parts = split_char CHR 0x09 dataLine in
           if length parts < 7 then Malformed
           else
             (let domainRaw = parts ! 0; includeSubdomainsRaw = parts ! 1; pathRaw = parts ! 2;
                  secureRaw = parts ! 3; expiryRaw = parts ! 4; name = parts ! 5;
                  value = parts ! 6
              in if name = [] \<or> domainRaw = [] then Malformed
                 else
                   Parsed \<lparr>ck_name = name,
                           ck_value = value,
                           ck_domain = cookie_domain (toUpperCase includeSubdomainsRaw = ''TRUE'')
                                         domainRaw,
                           ck_path = (if pathRaw = [] then ''/'' else pathRaw),
                           ck_secure = (toUpperCase secureRaw = ''TRUE''),
                           ck_httpOnly = httpOnly,
                           ck_expires = (case parseInt expiryRaw of
                                           None \<Rightarrow> None
                                         | Some expires \<Rightarrow>
                                             if expires > 0 then Some expires else None)\<rparr>)))"








text \<open>
  A sample cookie file: a byte order mark and a comment, a good line, a broken line, an
  http-only line.
\<close>

definition tabbed :: "string list \<Rightarrow> string" where
  "tabbed cols = join [CHR 0x09] cols"






section \<open>Connecting a capture hook to its tab (chrome\_utils, connectToPage)\<close>

text \<open>
  An open page of the browser, with the id of its target (\<open>None\<close> when \<open>p.target()\<close> is
  null) and its URL.
\<close>

record page =
  pg_targetId :: "string option"
  pg_url :: string

text \<open>
  What \<open>connectToPage\<close> meets: whether the \<open>puppeteer\<close> module was passed in, the two
  session marker files at each moment (milliseconds since the call), and the outcome of
  \<open>puppeteer.connect\<close> followed by \<open>browser.pages()\<close> for a given endpoint.
\<close>

record conn_world =
  cw_puppeteer :: bool
  cw_cdp_file :: "nat \<Rightarrow> fs_file option"
  cw_target_file :: "nat \<Rightarrow> fs_file option"
  cw_connect :: "string \<Rightarrow> js_error + page list"

text \<open>The errors \<open>connectToPage\<close> throws, and what it returns.\<close>

datatype connect_error =
    NoPuppeteer
  | SessionNotReady nat
  | ReadFailed string
  | NoCdpUrl
  | ConnectFailed js_error
  | NoPageFound

record connection =
  cn_page :: page
  cn_targetId :: "string option"
  cn_cdpUrl :: string

text \<open>
  \<open>waitForChromeSession\<close>: while less than \<open>timeoutMs\<close> has elapsed, return as soon as both
  marker files exist, else sleep 100 ms. The result is the moment of success, \<open>None\<close> for
  the \<open>false\<close> returned on timeout.
\<close>

function waitForChromeSession :: "conn_world \<Rightarrow> nat \<Rightarrow> nat \<Rightarrow> nat option" where
  "waitForChromeSession w timeoutMs elapsed =
     (if elapsed < timeoutMs then
        (if cw_cdp_file w elapsed \<noteq> None \<and> cw_target_file w elapsed \<noteq> None then Some elapsed
         else waitForChromeSession w timeoutMs (elapsed + 100))
      else None)"
  by pat_completeness auto
termination
  by (relation "measure (\<lambda>(w, timeoutMs, elapsed). timeoutMs - elapsed)") auto

declare waitForChromeSession.simps [simp del]

text \<open>
  \<open>readCdpUrl\<close> and \<open>readTargetId\<close>: \<open>null\<close> when the file does not exist, else its
  trimmed content; an unreadable file makes the read throw.
\<close>

definition read_trimmed :: "string \<Rightarrow> fs_file option \<Rightarrow> connect_error + string option" where
  "read_trimmed name f =
     (case f of
        None \<Rightarrow> Inr None
      | Some Unreadable \<Rightarrow> Inl (ReadFailed name)
      | Some (Content text) \<Rightarrow> Inr (Some (trim text)))"

definition readCdpUrl :: "conn_world \<Rightarrow> nat \<Rightarrow> connect_error + string option" where
  "readCdpUrl w t = read_trimmed ''cdp_url.txt'' (cw_cdp_file w t)"

definition readTargetId :: "conn_world \<Rightarrow> nat \<Rightarrow> connect_error + string option" where
  "readTargetId w t = read_trimmed ''target_id.txt'' (cw_target_file w t)"

text \<open>
  The page lookup: the first page whose target id is the persisted one, when that one
  is not empty; otherwise, or when none matches, \<open>pages[pages.length - 1]\<close>.
\<close>

definition find_page :: "string option \<Rightarrow> page list \<Rightarrow> page option" where
  "find_page targetId pages =
     (let page = (if truthy targetId then find (\<lambda>p. pg_targetId p = targetId) pages else None)
      in case page of
           Some p \<Rightarrow> Some p
         | None \<Rightarrow> if pages = [] then None else Some (last pages))"

definition connectToPage :: "conn_world \<Rightarrow> nat \<Rightarrow> connect_error + connection" where
  "connectToPage w timeoutMs =
     (if \<not> cw_puppeteer w then Inl NoPuppeteer
      else
        (case waitForChromeSession w timeoutMs 0 of
           None \<Rightarrow> Inl (SessionNotReady timeoutMs)
         | Some t \<Rightarrow>
             (case readCdpUrl w t of
                Inl err \<Rightarrow> Inl err
              | Inr cdpUrl \<Rightarrow>
                  if \<not> truthy cdpUrl then Inl NoCdpUrl
                  else
                    (case readTargetId w t of
                       Inl err \<Rightarrow> Inl err
                     | Inr targetId \<Rightarrow>
                         (case cw_connect w (str_of cdpUrl) of
                            Inl err \<Rightarrow> Inl (ConnectFailed err)
                          | Inr pages \<Rightarrow>
                              (case find_page targetId pages of
                                 None \<Rightarrow> Inl NoPageFound
                               | Some p \<Rightarrow>
                                   Inr \<lparr>cn_page = p, cn_targetId = targetId,
                                        cn_cdpUrl = str_of cdpUrl\<rparr>))))))"

text \<open>
  Sample worlds: marker files that appear after a delay, a browser with a single page
  that belongs to another snapshot, a blank \<open>cdp_url.txt\<close>.
\<close>

definition appears_at :: "nat \<Rightarrow> fs_file \<Rightarrow> nat \<Rightarrow> fs_file option" where
  "appears_at t0 f t = (if t < t0 then None else Some f)"

definition connect_pages :: "page list \<Rightarrow> string \<Rightarrow> js_error + page list" where
  "connect_pages pages cdpUrl = Inr pages"

definition other_page :: page where
  "other_page = \<lparr>pg_targetId = Some ''T9'', pg_url = ''https://other.example/''\<rparr>"

definition world_blank_cdp :: conn_world where
  "world_blank_cdp = \<lparr>cw_puppeteer = True,
     cw_cdp_file = appears_at 0 (Content '' ''),
     cw_target_file = appears_at 0 (Content ''T1''),
     cw_connect = connect_pages [other_page]\<rparr>"

definition world_stale_target :: conn_world where
  "world_stale_target = \<lparr>cw_puppeteer = True,
     cw_cdp_file = appears_at 200 (Content ''ws://127.0.0.1:9222/devtools/browser/b''),
     cw_target_file = appears_at 100 (Content ''T1''),
     cw_connect = connect_pages [other_page]\<rparr>"


section \<open>Invariants of the standard output\<close>















section \<open>Theorems\<close>

subsection \<open>Shared facts\<close>

lemmas trim_simps = trim_def trimStart_def trimEnd_def white_space_def

lemma parse_url_example:
  "parseArgs [''--url=http://example.com/'', ''--snapshot-id=s1''] ''url''
     = Some (ArgStr ''http://example.com/'')"
  by (simp add: parseArgs_def parse_arg_def startsWith_def)

lemma parse_snapshot_example:
  "parseArgs [''--url=http://example.com/'', ''--snapshot-id=s1''] ''snapshot_id''
     = Some (ArgStr ''s1'')"
  by (simp add: parseArgs_def parse_arg_def startsWith_def)

lemma getEnvBool_unset: "getEnvBool (env_of []) flag True"
  by (simp add: getEnvBool_def getEnv_def env_of_def trim_simps)

lemma getEnvBool_false:
  "\<not> getEnvBool (env_of [(flag, ''false'')]) flag True"
  by (simp add: getEnvBool_def getEnv_def env_of_def trim_simps
      lower_char_def)

lemma hook_prologue_enabled:
  "parseArgs argv ''url'' = Some u \<Longrightarrow> parseArgs argv ''snapshot_id'' = Some sid \<Longrightarrow>
   getEnvBool e flag True \<Longrightarrow> hook_prologue flag argv e = Inr u"
  by (simp add: hook_prologue_def)

lemma hook_prologue_disabled:
  "parseArgs argv ''url'' = Some u \<Longrightarrow> parseArgs argv ''snapshot_id'' = Some sid \<Longrightarrow>
   \<not> getEnvBool e flag True \<Longrightarrow>
   hook_prologue flag argv e = Inl (proc0\<lparr>stdout := [skipped_line flag], exit_code := Some 0\<rparr>)"
  by (simp add: hook_prologue_def)

lemma ssl_exited: "exit_code st \<noteq> None \<Longrightarrow> foldl (ssl_step url) st evs = st"
  by (induction evs) (simp_all add: ssl_step_def)

lemma dns_exited: "exit_code st \<noteq> None \<Longrightarrow> foldl (dns_step hn) st evs = st"
  by (induction evs) (simp_all add: dns_step_def)

lemma sf_exited: "exit_code st \<noteq> None \<Longrightarrow> foldl (sf_step pn e) st evs = st"
  by (induction evs) (simp_all add: sf_step_def)

lemma tab_exited: "exit_code st \<noteq> None \<Longrightarrow> foldl (tab_step w) st sigs = st"
  by (induction sigs) (simp_all add: tab_step_def)

subsection \<open>C2: composition of the browser command line\<close>

lemma count_list_append: "count_list (xs @ ys) x = count_list xs x + count_list ys x"
  by (induction xs) auto

text \<open>
  C2 (as stated, refuted): with the base flag \<open>--foo=1\<close> and a later flag \<open>--foo=2\<close>
  of the same key, the composed command line still contains \<open>--foo=1\<close>: both are passed.
  The same happens with the real dynamic flag \<open>--window-size\<close>.
\<close>

theorem chromiumArgs_keeps_both_counterexample:
  "chromiumArgs [''--foo=1''] [''--foo=2''] [] []
     = [''--foo=1'', ''--foo=2'', ''--use-mock-keychain'', ''about:blank'']
   \<and> count_list (map flag_key (chromiumArgs [''--window-size=800,600'']
          (dynamicArgs 9222 True 1440 2000 [] True True) [] [])) ''--window-size'' = 2"
  by (simp add: chromiumArgs_def dynamicArgs_def flag_key_def Let_def)

text \<open>
  C2 (amended): the command line starts with the plain concatenation of the base flags,
  the dynamic flags and the extra flags, in this order, and nothing is removed: a flag
  occurs at least as often as in the three sources together. A later source therefore
  overrides an earlier one only by its position.
\<close>

theorem chromiumArgs_concat:
  "prefix (baseArgs @ dynArgs @ extraArgs) (chromiumArgs baseArgs dynArgs extraArgs exts)
   \<and> count_list (chromiumArgs baseArgs dynArgs extraArgs exts) x
       \<ge> count_list baseArgs x + count_list dynArgs x + count_list extraArgs x"
  by (simp add: chromiumArgs_def Let_def count_list_append prefix_def)

subsection \<open>C1: the TLS extractor on a non-HTTPS URL\<close>

text \<open>
  C1 (as stated, refuted): with \<open>SSL_ENABLED\<close> at its default and the URL
  \<open>http://example.com/\<close>, the hook does not record an insecure state: \<open>ssl.jsonl\<close> is
  never written, and the run ends in a failed result with exit code 1 precisely because
  the URL is not HTTPS.
\<close>

theorem ssl_non_https_counterexample:
  "stdout (ssl_run [''--url=http://example.com/'', ''--snapshot-id=s1''] (env_of []) (Inr ())
             [SslSignal])
     = [ResultLine \<lparr>ar_status = Failed, ar_output_str = ''Error: URL is not HTTPS'',
                    ar_fields = []\<rparr>]
   \<and> exit_code (ssl_run [''--url=http://example.com/'', ''--snapshot-id=s1''] (env_of [])
                  (Inr ()) [SslSignal]) = Some 1
   \<and> ssl_file (ssl_run [''--url=http://example.com/'', ''--snapshot-id=s1''] (env_of [])
                 (Inr ()) [SslSignal]) = None"
  by (simp add: ssl_run_def ssl_main_def hook_prologue_def parse_url_example
      parse_snapshot_example getEnvBool_unset ssl_setupListener_def startsWith_def
      ssl_state0_def ssl_step_def failed_line_def)

text \<open>
  C1 (amended): for every invocation of the TLS hook with the usage arguments present,
  \<open>SSL_ENABLED\<close> true and a URL that does not start with \<open>https://\<close>, whatever the
  browser would answer and whatever events follow, the hook attempts no connection and no
  certificate read, writes no TLS state at all, prints exactly one result, with status
  failed and output \<open>Error: URL is not HTTPS\<close>, and exits with code 1.
\<close>

theorem ssl_non_https_fails:
  assumes "parseArgs argv ''url'' = Some (ArgStr u)"
      and "parseArgs argv ''snapshot_id'' = Some sid"
      and "getEnvBool e ''SSL_ENABLED'' True"
      and "\<not> startsWith u ''https://''"
  shows "ssl_run argv e conn evs =
           ssl_state0\<lparr>stdout := [failed_line (JsError ''Error'' ''URL is not HTTPS'')],
                      exit_code := Some 1\<rparr>"
proof -
  have m: "ssl_main argv e conn =
           ssl_state0\<lparr>stdout := [failed_line (JsError ''Error'' ''URL is not HTTPS'')],
                      exit_code := Some 1\<rparr>"
    using assms
    by (simp add: ssl_main_def hook_prologue_enabled ssl_setupListener_def)
  have "exit_code (ssl_main argv e conn) \<noteq> None"
    by (simp add: m)
  then have "foldl (ssl_step u) (ssl_main argv e conn) evs = ssl_main argv e conn"
    by (rule ssl_exited)
  then show ?thesis
    using assms(1) by (simp add: ssl_run_def m)
qed

text \<open>The amended C1 at \<open>http://example.com/\<close>, followed by a termination signal.\<close>

theorem ssl_non_https_fails_witness:
  "parseArgs [''--url=http://example.com/'', ''--snapshot-id=s1''] ''url''
     = Some (ArgStr ''http://example.com/'')
   \<and> getEnvBool (env_of []) ''SSL_ENABLED'' True
   \<and> \<not> startsWith ''http://example.com/'' ''https://''
   \<and> ssl_run [''--url=http://example.com/'', ''--snapshot-id=s1''] (env_of []) (Inr ())
         [SslSignal]
       = ssl_state0\<lparr>stdout := [failed_line (JsError ''Error'' ''URL is not HTTPS'')],
                    exit_code := Some 1\<rparr>"
  using ssl_non_https_fails [OF parse_url_example parse_snapshot_example getEnvBool_unset,
      of "Inr ()" "[SslSignal]"]
  by (simp add: startsWith_def parse_url_example getEnvBool_unset)

subsection \<open>C3: a disabled capture plugin\<close>

text \<open>
  C3 (as stated, refuted): the screenshot plugin with \<open>SCREENSHOT_ENABLED=false\<close> exits
  with code 0 but prints no result line at all.
\<close>

theorem screenshot_disabled_counterexample:
  "screenshot_hook [''--url=http://example.com/'', ''--snapshot-id=s1'']
     (env_of [(''SCREENSHOT_ENABLED'', ''false'')]) False
     \<lparr>sw_pageLoaded = True, sw_cdpUrl = Some ''ws://127.0.0.1:9222/devtools/browser/b'',
      sw_targetId = Some ''T1'', sw_connect = Inr (Inr ''./screenshot.png'')\<rparr>
   = \<lparr>stdout = [], exit_code = Some 0, connects = 0\<rparr>"
  by (simp add: screenshot_hook_def getEnvBool_false proc0_def)

text \<open>
  C3 (amended): when the enablement flag evaluates to false, the dns, ssl and staticfile
  plugins, invoked with their usage arguments, exit with code 0 having printed exactly
  one result line, with status skipped, and having attempted no browser connection;
  nothing that happens afterwards changes that. The screenshot plugin, whose check runs
  before \<open>main\<close>, exits with code 0 having attempted no connection and printed nothing.
\<close>

theorem disabled_hook_skips:
  assumes "parseArgs argv ''url'' = Some u"
      and "parseArgs argv ''snapshot_id'' = Some sid"
  shows "(\<not> getEnvBool e ''DNS_ENABLED'' True \<longrightarrow>
            dns_run hn argv e setup devs
              = dns_state0\<lparr>stdout := [skipped_line ''DNS_ENABLED''], exit_code := Some 0\<rparr>)
       \<and> (\<not> getEnvBool e ''SSL_ENABLED'' True \<longrightarrow>
            ssl_run argv e conn sevs
              = ssl_state0\<lparr>stdout := [skipped_line ''SSL_ENABLED''], exit_code := Some 0\<rparr>)
       \<and> (\<not> getEnvBool e ''STATICFILE_ENABLED'' True \<longrightarrow>
            sf_run pn argv e conn fevs
              = sf_state0\<lparr>stdout := [skipped_line ''STATICFILE_ENABLED''],
                          exit_code := Some 0\<rparr>)
       \<and> (\<not> getEnvBool e ''SCREENSHOT_ENABLED'' True \<longrightarrow>
            screenshot_hook argv e staticDone w = \<lparr>stdout = [], exit_code = Some 0, connects = 0\<rparr>)"
proof (intro conjI impI)
  assume off: "\<not> getEnvBool e ''DNS_ENABLED'' True"
  have "dns_main argv e setup
          = dns_state0\<lparr>stdout := [skipped_line ''DNS_ENABLED''], exit_code := Some 0\<rparr>"
    using assms off by (simp add: dns_main_def hook_prologue_disabled proc0_def)
  then show "dns_run hn argv e setup devs
          = dns_state0\<lparr>stdout := [skipped_line ''DNS_ENABLED''], exit_code := Some 0\<rparr>"
    by (simp add: dns_run_def dns_exited)
next
  assume off: "\<not> getEnvBool e ''SSL_ENABLED'' True"
  have "ssl_main argv e conn
          = ssl_state0\<lparr>stdout := [skipped_line ''SSL_ENABLED''], exit_code := Some 0\<rparr>"
    using assms off by (simp add: ssl_main_def hook_prologue_disabled proc0_def)
  then show "ssl_run argv e conn sevs
          = ssl_state0\<lparr>stdout := [skipped_line ''SSL_ENABLED''], exit_code := Some 0\<rparr>"
    by (simp add: ssl_run_def ssl_exited)
next
  assume off: "\<not> getEnvBool e ''STATICFILE_ENABLED'' True"
  have "sf_main argv e conn
          = sf_state0\<lparr>stdout := [skipped_line ''STATICFILE_ENABLED''], exit_code := Some 0\<rparr>"
    using assms off by (simp add: sf_main_def hook_prologue_disabled proc0_def)
  then show "sf_run pn argv e conn fevs
          = sf_state0\<lparr>stdout := [skipped_line ''STATICFILE_ENABLED''], exit_code := Some 0\<rparr>"
    by (simp add: sf_run_def sf_exited)
next
  assume "\<not> getEnvBool e ''SCREENSHOT_ENABLED'' True"
  then show "screenshot_hook argv e staticDone w
          = \<lparr>stdout = [], exit_code = Some 0, connects = 0\<rparr>"
    by (simp add: screenshot_hook_def proc0_def)
qed


lemma flags_off_values:
  "\<not> getEnvBool flags_off ''DNS_ENABLED'' True"
  "\<not> getEnvBool flags_off ''SSL_ENABLED'' True"
  "\<not> getEnvBool flags_off ''STATICFILE_ENABLED'' True"
  "\<not> getEnvBool flags_off ''SCREENSHOT_ENABLED'' True"
  by (simp_all add: flags_off_def getEnvBool_def getEnv_def env_of_def trim_simps
      trim_simps lower_char_def)

text \<open>The amended C3 on an environment with all four flags off.\<close>

theorem disabled_hook_skips_witness:
  "\<not> getEnvBool flags_off ''DNS_ENABLED'' True
   \<and> \<not> getEnvBool flags_off ''SSL_ENABLED'' True
   \<and> \<not> getEnvBool flags_off ''STATICFILE_ENABLED'' True
   \<and> \<not> getEnvBool flags_off ''SCREENSHOT_ENABLED'' True
   \<and> dns_run simple_hostname [''--url=http://example.com/'', ''--snapshot-id=s1''] flags_off
        (Inr ()) [DnsSignal]
       = dns_state0\<lparr>stdout := [skipped_line ''DNS_ENABLED''], exit_code := Some 0\<rparr>
   \<and> ssl_run [''--url=http://example.com/'', ''--snapshot-id=s1''] flags_off (Inr ()) [SslSignal]
       = ssl_state0\<lparr>stdout := [skipped_line ''SSL_ENABLED''], exit_code := Some 0\<rparr>
   \<and> sf_run simple_pathname [''--url=http://example.com/'', ''--snapshot-id=s1''] flags_off
        (Inr ()) [SfSignal]
       = sf_state0\<lparr>stdout := [skipped_line ''STATICFILE_ENABLED''], exit_code := Some 0\<rparr>
   \<and> screenshot_hook [''--url=http://example.com/'', ''--snapshot-id=s1''] flags_off False
        \<lparr>sw_pageLoaded = True, sw_cdpUrl = Some ''ws://127.0.0.1:9222/devtools/browser/b'',
         sw_targetId = Some ''T1'', sw_connect = Inr (Inr ''./screenshot.png'')\<rparr>
       = \<lparr>stdout = [], exit_code = Some 0, connects = 0\<rparr>"
  using disabled_hook_skips [OF parse_url_example parse_snapshot_example, of flags_off
      simple_hostname "Inr ()" "[DnsSignal]" "Inr ()" "[SslSignal]" simple_pathname "[SfSignal]"
      False
      "\<lparr>sw_pageLoaded = True, sw_cdpUrl = Some ''ws://127.0.0.1:9222/devtools/browser/b'',
        sw_targetId = Some ''T1'', sw_connect = Inr (Inr ''./screenshot.png'')\<rparr>"]
  by (simp add: flags_off_values)

subsection \<open>C8: the static-file downloader on a PDF attachment\<close>

lemma filename_match_scenarioA: "filename_match scenarioA_disposition = Some ''x.pdf''"
  by (simp add: scenarioA_disposition_def filename_match_at_def startsWith_def)

lemma includes_scenarioA: "str_includes scenarioA_disposition ''filename=''"
  by (simp add: scenarioA_disposition_def startsWith_def)

lemma sanitize_x_pdf: "sanitizeFilename (trim ''x.pdf'') = ''x.pdf''"
  by (simp add: sanitizeFilename_def trim_simps filename_char_ok_def)

lemma split_pdf: "hd (split_char CHR '';'' ''application/pdf'') = ''application/pdf''"
  by simp

lemma trim_pdf: "trim ''application/pdf'' = ''application/pdf''"
  by (simp add: trim_simps)

lemma lower_pdf: "toLowerCase ''application/pdf'' = ''application/pdf''"
  by (simp add: lower_char_def)

lemma pdf_static: "isStaticContentType ''application/pdf''"
  unfolding isStaticContentType_def split_pdf trim_pdf lower_pdf Let_def
  by (simp add: STATIC_CONTENT_TYPES_def)

lemma sf_on_response_pdf:
  assumes "\<not> firstResponseHandled st" "originalUrl st = ArgStr u" "200 \<le> s" "s < 300"
  shows "sf_on_response st (pdf_response u s body) =
     st\<lparr>firstResponseHandled := True, detectedContentType := Some ''application/pdf'',
        isStaticFile := True, sf_pending := Some (pdf_response u s body)\<rparr>"
proof -
  have ct: "trim (hd (split_char CHR '';'' (rs_content_type (pdf_response u s body))))
              = ''application/pdf''"
    unfolding pdf_response_def by (simp add: split_pdf trim_pdf del: split_char.simps)
  have g: "rs_url (pdf_response u s body) = u" "rs_status (pdf_response u s body) = s"
    by (simp_all add: pdf_response_def)
  show ?thesis
    unfolding sf_on_response_def ct g Let_def using assms by (simp add: pdf_static)
qed

lemma sf_on_buffer_pdf:
  assumes "int (length body) \<le> getEnvInt e ''STATICFILE_MAX_SIZE'' (1024 * 1024 * 1024)"
  shows "sf_on_buffer pn e st (pdf_response u s body) =
     st\<lparr>sf_pending := None, sf_files := sf_files st @ [(''x.pdf'', body)],
        downloadedFilePath := Some ''x.pdf''\<rparr>"
  using assms unfolding sf_on_buffer_def pdf_response_def
  by (simp add: includes_scenarioA filename_match_scenarioA sanitize_x_pdf Let_def)

lemma sf_on_buffer_too_large:
  assumes "int (length body) > getEnvInt e ''STATICFILE_MAX_SIZE'' (1024 * 1024 * 1024)"
  shows "sf_on_buffer pn e st (pdf_response u s body) =
     st\<lparr>sf_pending := None,
        downloadError := Some (too_large_message (length body)
          (getEnvInt e ''STATICFILE_MAX_SIZE'' (1024 * 1024 * 1024)))\<rparr>"
  using assms unfolding sf_on_buffer_def pdf_response_def too_large_message_def
  by (simp add: Let_def)

lemma sf_ignored_step:
  assumes "sf_ignored u ev" "originalUrl st = ArgStr u" "sf_setup st = None" "sf_pending st = None"
  shows "sf_step pn e st ev = st"
  using assms by (cases ev) (auto simp: sf_step_def sf_on_response_def)

lemma sf_ignored_run:
  assumes "list_all (sf_ignored u) evs" "originalUrl st = ArgStr u" "sf_setup st = None"
    "sf_pending st = None"
  shows "foldl (sf_step pn e) st evs = st"
  using assms by (induction evs) (simp_all add: sf_ignored_step [where u = u])

lemma sf_waiting_step:
  assumes "sf_waiting ev" "firstResponseHandled st" "sf_setup st = None"
  shows "sf_step pn e st ev = st"
  using assms by (cases ev) (auto simp: sf_step_def sf_on_response_def)

lemma sf_waiting_run:
  assumes "list_all sf_waiting evs" "firstResponseHandled st" "sf_setup st = None"
  shows "foldl (sf_step pn e) st evs = st"
  using assms by (induction evs) (simp_all add: sf_waiting_step)

lemma sf_handled_step:
  assumes "ev \<noteq> SfSignal" "firstResponseHandled st" "sf_setup st = None" "sf_pending st = None"
  shows "sf_step pn e st ev = st"
  using assms by (cases ev) (auto simp: sf_step_def sf_on_response_def)

lemma sf_handled_run:
  assumes "SfSignal \<notin> set evs" "firstResponseHandled st" "sf_setup st = None"
    "sf_pending st = None"
  shows "foldl (sf_step pn e) st evs = st"
  using assms by (induction evs) (auto simp: sf_handled_step)

lemma sf_start:
  assumes "parseArgs argv ''url'' = Some url" "parseArgs argv ''snapshot_id'' = Some sid"
    "getEnvBool e ''STATICFILE_ENABLED'' True"
  shows "sf_step pn e (sf_main argv e (Inr ())) SfSetupSettled
           = sf_state0\<lparr>originalUrl := url, connects := 1, sf_listening := True\<rparr>"
  using assms
  by (simp add: sf_main_def hook_prologue_enabled sf_step_def sf_settle_def sf_state0_def)

text \<open>
  The run up to the moment the body of the PDF response is being read: the connection
  settles, events that are passed over, the response, and events that leave the read
  pending.
\<close>

lemma sf_pdf_pending:
  assumes "parseArgs argv ''url'' = Some (ArgStr u)"
      and "parseArgs argv ''snapshot_id'' = Some sid"
      and "getEnvBool e ''STATICFILE_ENABLED'' True"
      and "list_all (sf_ignored u) pre"
      and "200 \<le> s" and "s < 300"
      and "list_all sf_waiting mid"
  shows "foldl (sf_step pn e) (sf_main argv e (Inr ()))
           (SfSetupSettled # pre @ [SfResponse (pdf_response u s body)] @ mid)
         = sf_state0\<lparr>originalUrl := ArgStr u, connects := 1, sf_listening := True,
             firstResponseHandled := True, detectedContentType := Some ''application/pdf'',
             isStaticFile := True, sf_pending := Some (pdf_response u s body)\<rparr>"
proof -
  let ?st0 = "sf_state0\<lparr>originalUrl := ArgStr u, connects := 1, sf_listening := True\<rparr>"
  let ?st1 = "?st0\<lparr>firstResponseHandled := True, detectedContentType := Some ''application/pdf'',
        isStaticFile := True, sf_pending := Some (pdf_response u s body)\<rparr>"
  have m: "sf_step pn e (sf_main argv e (Inr ())) SfSetupSettled = ?st0"
    using assms(1-3) by (rule sf_start)
  have a: "foldl (sf_step pn e) ?st0 pre = ?st0"
    using assms(4) by (rule sf_ignored_run) (simp_all add: sf_state0_def)
  have "sf_on_response ?st0 (pdf_response u s body) = ?st1"
    using assms(5,6) by (intro sf_on_response_pdf) (simp_all add: sf_state0_def)
  then have b: "sf_step pn e ?st0 (SfResponse (pdf_response u s body)) = ?st1"
    by (simp add: sf_step_def sf_state0_def)
  have c: "foldl (sf_step pn e) ?st1 mid = ?st1"
    using assms(7) by (rule sf_waiting_run) (simp_all add: sf_state0_def)
  have "foldl (sf_step pn e) (sf_main argv e (Inr ()))
           (SfSetupSettled # pre @ [SfResponse (pdf_response u s body)] @ mid) = ?st1"
    unfolding foldl_Cons foldl_append foldl_Nil m a b c ..
  then show ?thesis by simp
qed

lemma sf_pdf_run:
  assumes "parseArgs argv ''url'' = Some (ArgStr u)"
      and "parseArgs argv ''snapshot_id'' = Some sid"
      and "getEnvBool e ''STATICFILE_ENABLED'' True"
      and "list_all (sf_ignored u) pre"
      and "200 \<le> s" and "s < 300"
      and "list_all sf_waiting mid"
      and "SfSignal \<notin> set post"
  shows "int (length body) \<le> getEnvInt e ''STATICFILE_MAX_SIZE'' (1024 * 1024 * 1024) \<Longrightarrow>
         sf_run pn argv e (Inr ())
           (SfSetupSettled # pre @ [SfResponse (pdf_response u s body)] @ mid @ [SfBuffered]
              @ post @ [SfSignal] @ rest)
         = sf_state0\<lparr>originalUrl := ArgStr u, connects := 1, sf_listening := True,
             firstResponseHandled := True, detectedContentType := Some ''application/pdf'',
             isStaticFile := True, sf_files := [(''x.pdf'', body)],
             downloadedFilePath := Some ''x.pdf'',
             stdout := [ResultLine pdf_result], exit_code := Some 0\<rparr>"
    and "int (length body) > getEnvInt e ''STATICFILE_MAX_SIZE'' (1024 * 1024 * 1024) \<Longrightarrow>
         sf_run pn argv e (Inr ())
           (SfSetupSettled # pre @ [SfResponse (pdf_response u s body)] @ mid @ [SfBuffered]
              @ post @ [SfSignal] @ rest)
         = sf_state0\<lparr>originalUrl := ArgStr u, connects := 1, sf_listening := True,
             firstResponseHandled := True, detectedContentType := Some ''application/pdf'',
             isStaticFile := True,
             downloadError := Some (too_large_message (length body)
               (getEnvInt e ''STATICFILE_MAX_SIZE'' (1024 * 1024 * 1024))),
             stdout := [ResultLine (pdf_failed (too_large_message (length body)
               (getEnvInt e ''STATICFILE_MAX_SIZE'' (1024 * 1024 * 1024))))],
             exit_code := Some 0\<rparr>"
    and "sf_run pn argv e (Inr ())
           (SfSetupSettled # pre @ [SfResponse (pdf_response u s body)] @ mid @ [SfSignal] @ rest)
         = sf_state0\<lparr>originalUrl := ArgStr u, connects := 1, sf_listening := True,
             firstResponseHandled := True, detectedContentType := Some ''application/pdf'',
             isStaticFile := True, sf_pending := Some (pdf_response u s body),
             stdout := [ResultLine
               (pdf_failed ''Static file detected but download did not complete'')],
             exit_code := Some 0\<rparr>"
proof -
  let ?st1 = "sf_state0\<lparr>originalUrl := ArgStr u, connects := 1, sf_listening := True,
             firstResponseHandled := True, detectedContentType := Some ''application/pdf'',
             isStaticFile := True, sf_pending := Some (pdf_response u s body)\<rparr>"
  let ?head = "SfSetupSettled # pre @ [SfResponse (pdf_response u s body)] @ mid"
  have p: "foldl (sf_step pn e) (sf_main argv e (Inr ())) ?head = ?st1"
    using assms(1-7) by (rule sf_pdf_pending)
  have run: "sf_run pn argv e (Inr ()) (?head @ tail)
               = foldl (sf_step pn e) ?st1 tail" for tail
    unfolding sf_run_def foldl_append p ..
  have fin: "foldl (sf_step pn e) (sf_step pn e st SfSignal) rest = sf_handleShutdown st"
    if "exit_code st = None" for st
  proof -
    have "sf_step pn e st SfSignal = sf_handleShutdown st"
      using that by (simp add: sf_step_def)
    moreover have "foldl (sf_step pn e) (sf_handleShutdown st) rest = sf_handleShutdown st"
      by (rule sf_exited) (simp add: sf_handleShutdown_def)
    ultimately show ?thesis by simp
  qed
  show "sf_run pn argv e (Inr ())
           (SfSetupSettled # pre @ [SfResponse (pdf_response u s body)] @ mid @ [SfBuffered]
              @ post @ [SfSignal] @ rest)
         = sf_state0\<lparr>originalUrl := ArgStr u, connects := 1, sf_listening := True,
             firstResponseHandled := True, detectedContentType := Some ''application/pdf'',
             isStaticFile := True, sf_files := [(''x.pdf'', body)],
             downloadedFilePath := Some ''x.pdf'',
             stdout := [ResultLine pdf_result], exit_code := Some 0\<rparr>"
    if small: "int (length body) \<le> getEnvInt e ''STATICFILE_MAX_SIZE'' (1024 * 1024 * 1024)"
  proof -
    let ?st2 = "?st1\<lparr>sf_pending := None, sf_files := sf_files ?st1 @ [(''x.pdf'', body)],
        downloadedFilePath := Some ''x.pdf''\<rparr>"
    have "sf_on_buffer pn e ?st1 (pdf_response u s body) = ?st2"
      using small by (rule sf_on_buffer_pdf)
    then have b: "sf_step pn e ?st1 SfBuffered = ?st2"
      by (simp add: sf_step_def sf_state0_def)
    have c: "foldl (sf_step pn e) ?st2 post = ?st2"
      using assms(8) by (rule sf_handled_run) (simp_all add: sf_state0_def)
    have d: "foldl (sf_step pn e) (sf_step pn e ?st2 SfSignal) rest = sf_handleShutdown ?st2"
      by (rule fin) (simp add: sf_state0_def)
    have "sf_run pn argv e (Inr ()) (?head @ [SfBuffered] @ post @ [SfSignal] @ rest)
            = sf_handleShutdown ?st2"
      unfolding run foldl_Cons foldl_append foldl_Nil b c d ..
    then show ?thesis
      by (simp add: sf_handleShutdown_def sf_result_def truthy_def str_of_def pdf_result_def
          sf_state0_def)
  qed
  show "sf_run pn argv e (Inr ())
           (SfSetupSettled # pre @ [SfResponse (pdf_response u s body)] @ mid @ [SfBuffered]
              @ post @ [SfSignal] @ rest)
         = sf_state0\<lparr>originalUrl := ArgStr u, connects := 1, sf_listening := True,
             firstResponseHandled := True, detectedContentType := Some ''application/pdf'',
             isStaticFile := True,
             downloadError := Some (too_large_message (length body)
               (getEnvInt e ''STATICFILE_MAX_SIZE'' (1024 * 1024 * 1024))),
             stdout := [ResultLine (pdf_failed (too_large_message (length body)
               (getEnvInt e ''STATICFILE_MAX_SIZE'' (1024 * 1024 * 1024))))],
             exit_code := Some 0\<rparr>"
    if large: "int (length body) > getEnvInt e ''STATICFILE_MAX_SIZE'' (1024 * 1024 * 1024)"
  proof -
    let ?msg = "too_large_message (length body)
                  (getEnvInt e ''STATICFILE_MAX_SIZE'' (1024 * 1024 * 1024))"
    let ?st2 = "?st1\<lparr>sf_pending := None, downloadError := Some ?msg\<rparr>"
    have ne: "?msg \<noteq> []" by (simp add: too_large_message_def)
    have "sf_on_buffer pn e ?st1 (pdf_response u s body) = ?st2"
      using large by (rule sf_on_buffer_too_large)
    then have b: "sf_step pn e ?st1 SfBuffered = ?st2"
      by (simp add: sf_step_def sf_state0_def)
    have c: "foldl (sf_step pn e) ?st2 post = ?st2"
      using assms(8) by (rule sf_handled_run) (simp_all add: sf_state0_def)
    have d: "foldl (sf_step pn e) (sf_step pn e ?st2 SfSignal) rest = sf_handleShutdown ?st2"
      by (rule fin) (simp add: sf_state0_def)
    have "sf_run pn argv e (Inr ()) (?head @ [SfBuffered] @ post @ [SfSignal] @ rest)
            = sf_handleShutdown ?st2"
      unfolding run foldl_Cons foldl_append foldl_Nil b c d ..
    then show ?thesis
      using ne
      by (simp add: sf_handleShutdown_def sf_result_def truthy_def str_of_def pdf_failed_def
          sf_state0_def)
  qed
  show "sf_run pn argv e (Inr ())
           (SfSetupSettled # pre @ [SfResponse (pdf_response u s body)] @ mid @ [SfSignal] @ rest)
         = sf_state0\<lparr>originalUrl := ArgStr u, connects := 1, sf_listening := True,
             firstResponseHandled := True, detectedContentType := Some ''application/pdf'',
             isStaticFile := True, sf_pending := Some (pdf_response u s body),
             stdout := [ResultLine
               (pdf_failed ''Static file detected but download did not complete'')],
             exit_code := Some 0\<rparr>"
  proof -
    have d: "foldl (sf_step pn e) (sf_step pn e ?st1 SfSignal) rest = sf_handleShutdown ?st1"
      by (rule fin) (simp add: sf_state0_def)
    have "sf_run pn argv e (Inr ()) (?head @ [SfSignal] @ rest) = sf_handleShutdown ?st1"
      unfolding run foldl_Cons foldl_append foldl_Nil d ..
    then show ?thesis
      by (simp add: sf_handleShutdown_def sf_result_def truthy_def str_of_def pdf_failed_def
          sf_state0_def)
  qed
qed

lemma dec_int_1G: "dec_int 1073741824 = ''1073741824''"
  by (simp add: dec_int_def dec_nat.simps digit_char_def)

lemma parseInt_1G: "parseInt ''1073741824'' = Some 1073741824"
  by (simp add: parseInt_def trim_simps is_digit_def digits_val_def digit_val_def)

lemma trim_1G: "trim ''1073741824'' = ''1073741824''"
  by (simp add: trim_simps)

lemma max_size_default:
  "getEnvInt (env_of []) ''STATICFILE_MAX_SIZE'' 1073741824 = 1073741824"
  by (simp add: getEnvInt_def getEnv_def env_of_def dec_int_1G parseInt_1G trim_1G)

lemma max_size_3:
  "getEnvInt (env_of [(''STATICFILE_MAX_SIZE'', ''3'')]) ''STATICFILE_MAX_SIZE'' d = 3"
  by (simp add: getEnvInt_def getEnv_def env_of_def trim_simps parseInt_def is_digit_def
      digits_val_def digit_val_def)

lemma getEnvBool_other:
  "getEnvBool (env_of [(''STATICFILE_MAX_SIZE'', ''3'')]) ''STATICFILE_ENABLED'' True"
  by (simp add: getEnvBool_def getEnv_def env_of_def trim_simps)

lemma too_large_4_3:
  "too_large_message (length ''%PDF'') 3 = ''File too large: 4 bytes > 3 max''"
  by (simp add: too_large_message_def dec_nat.simps dec_int_def digit_char_def)

text \<open>
  C8 (amended): let the hook run with its usage arguments, enabled and connected, and let
  the first response for the navigated URL whose status is in 200..299 (earlier
  responses for other URLs, or for this URL with another status, are passed over) have
  Content-Type \<open>application/pdf\<close> and the header
  \<open>content-disposition: attachment; filename="x.pdf"\<close>, with a body that can be read and
  a file write that succeeds. Whatever responses follow, none of them is inspected, and:
  if the body read settles before the termination signal and the body is no longer than
  \<open>STATICFILE_MAX_SIZE\<close>, the body is written to the file \<open>x.pdf\<close>, nothing else is
  written, and at the signal the hook prints exactly one result, succeeded with output
  \<open>x.pdf\<close>; if the body is longer, no file is written and the one result is failed with
  the message \<open>File too large\<close>; if the signal arrives while the body is still being
  read, no file is written and the one result is failed with the message that the
  download did not complete. In all three cases the exit code is 0.
\<close>

theorem staticfile_pdf_download:
  assumes "parseArgs argv ''url'' = Some (ArgStr u)"
      and "parseArgs argv ''snapshot_id'' = Some sid"
      and "getEnvBool e ''STATICFILE_ENABLED'' True"
      and "list_all (sf_ignored u) pre"
      and "200 \<le> s" and "s < 300"
      and "list_all sf_waiting mid"
      and "SfSignal \<notin> set post"
  shows "(int (length body) \<le> getEnvInt e ''STATICFILE_MAX_SIZE'' (1024 * 1024 * 1024) \<longrightarrow>
            sf_run pn argv e (Inr ())
              (SfSetupSettled # pre @ [SfResponse (pdf_response u s body)] @ mid @ [SfBuffered]
                 @ post @ [SfSignal] @ rest)
            = sf_state0\<lparr>originalUrl := ArgStr u, connects := 1, sf_listening := True,
                firstResponseHandled := True, detectedContentType := Some ''application/pdf'',
                isStaticFile := True, sf_files := [(''x.pdf'', body)],
                downloadedFilePath := Some ''x.pdf'',
                stdout := [ResultLine pdf_result], exit_code := Some 0\<rparr>)
       \<and> (int (length body) > getEnvInt e ''STATICFILE_MAX_SIZE'' (1024 * 1024 * 1024) \<longrightarrow>
            sf_run pn argv e (Inr ())
              (SfSetupSettled # pre @ [SfResponse (pdf_response u s body)] @ mid @ [SfBuffered]
                 @ post @ [SfSignal] @ rest)
            = sf_state0\<lparr>originalUrl := ArgStr u, connects := 1, sf_listening := True,
                firstResponseHandled := True, detectedContentType := Some ''application/pdf'',
                isStaticFile := True,
                downloadError := Some (too_large_message (length body)
                  (getEnvInt e ''STATICFILE_MAX_SIZE'' (1024 * 1024 * 1024))),
                stdout := [ResultLine (pdf_failed (too_large_message (length body)
                  (getEnvInt e ''STATICFILE_MAX_SIZE'' (1024 * 1024 * 1024))))],
                exit_code := Some 0\<rparr>)
       \<and> sf_run pn argv e (Inr ())
            (SfSetupSettled # pre @ [SfResponse (pdf_response u s body)] @ mid @ [SfSignal] @ rest)
          = sf_state0\<lparr>originalUrl := ArgStr u, connects := 1, sf_listening := True,
              firstResponseHandled := True, detectedContentType := Some ''application/pdf'',
              isStaticFile := True, sf_pending := Some (pdf_response u s body),
              stdout := [ResultLine
                (pdf_failed ''Static file detected but download did not complete'')],
              exit_code := Some 0\<rparr>"
  using sf_pdf_run [OF assms] by blast

text \<open>
  C8 (as stated, refuted), in three runs. In the first, the first response for the
  navigated URL is a 404 and the second one is the PDF: the second response is inspected
  and downloaded, so more than the first same-URL response is inspected. In the second,
  the PDF is the first response but its four bytes exceed \<open>STATICFILE_MAX_SIZE=3\<close>: no
  file is written and the final result is failed. In the third, the termination signal
  arrives while the body is being read: again no file, and a failed result.
\<close>

theorem staticfile_counterexample:
  "stdout (sf_run simple_pathname [''--url=http://example.com/'', ''--snapshot-id=s1'']
             (env_of []) (Inr ())
             [SfSetupSettled, SfResponse (not_found_response ''http://example.com/''),
              SfResponse (pdf_response ''http://example.com/'' 200 ''%PDF''), SfBuffered,
              SfSignal])
     = [ResultLine pdf_result]
   \<and> sf_files (sf_run simple_pathname [''--url=http://example.com/'', ''--snapshot-id=s1'']
             (env_of [(''STATICFILE_MAX_SIZE'', ''3'')]) (Inr ())
             [SfSetupSettled, SfResponse (pdf_response ''http://example.com/'' 200 ''%PDF''),
              SfBuffered, SfSignal])
     = []
   \<and> stdout (sf_run simple_pathname [''--url=http://example.com/'', ''--snapshot-id=s1'']
             (env_of [(''STATICFILE_MAX_SIZE'', ''3'')]) (Inr ())
             [SfSetupSettled, SfResponse (pdf_response ''http://example.com/'' 200 ''%PDF''),
              SfBuffered, SfSignal])
     = [ResultLine (pdf_failed ''File too large: 4 bytes > 3 max'')]
   \<and> stdout (sf_run simple_pathname [''--url=http://example.com/'', ''--snapshot-id=s1'']
             (env_of []) (Inr ())
             [SfSetupSettled, SfResponse (pdf_response ''http://example.com/'' 200 ''%PDF''),
              SfSignal])
     = [ResultLine (pdf_failed ''Static file detected but download did not complete'')]"
proof -
  let ?argv = "[''--url=http://example.com/'', ''--snapshot-id=s1'']"
  let ?u = "''http://example.com/''"
  let ?e3 = "env_of [(''STATICFILE_MAX_SIZE'', ''3'')]"
  have a: "list_all (sf_ignored ?u) [SfResponse (not_found_response ?u)]"
    by (simp add: not_found_response_def)
  have b: "int (length ''%PDF'') \<le> getEnvInt (env_of []) ''STATICFILE_MAX_SIZE'' (1024 * 1024 * 1024)"
    by (simp add: max_size_default)
  have c: "int (length ''%PDF'') > getEnvInt ?e3 ''STATICFILE_MAX_SIZE'' (1024 * 1024 * 1024)"
    by (simp add: max_size_3)
  have first: "stdout (sf_run simple_pathname ?argv (env_of []) (Inr ())
             (SfSetupSettled # [SfResponse (not_found_response ?u)]
                @ [SfResponse (pdf_response ?u 200 ''%PDF'')] @ [] @ [SfBuffered] @ []
                @ [SfSignal] @ [])) = [ResultLine pdf_result]"
    by (subst sf_pdf_run(1) [OF parse_url_example parse_snapshot_example getEnvBool_unset a _ _ _ _ b])
       simp_all
  have second: "sf_run simple_pathname ?argv ?e3 (Inr ())
             (SfSetupSettled # [] @ [SfResponse (pdf_response ?u 200 ''%PDF'')] @ [] @ [SfBuffered]
                @ [] @ [SfSignal] @ [])
       = sf_state0\<lparr>originalUrl := ArgStr ?u, connects := 1, sf_listening := True,
             firstResponseHandled := True, detectedContentType := Some ''application/pdf'',
             isStaticFile := True,
             downloadError := Some (too_large_message (length ''%PDF'')
               (getEnvInt ?e3 ''STATICFILE_MAX_SIZE'' (1024 * 1024 * 1024))),
             stdout := [ResultLine (pdf_failed (too_large_message (length ''%PDF'')
               (getEnvInt ?e3 ''STATICFILE_MAX_SIZE'' (1024 * 1024 * 1024))))],
             exit_code := Some 0\<rparr>"
    by (rule sf_pdf_run(2) [OF parse_url_example parse_snapshot_example getEnvBool_other _ _ _ _ _ c])
       simp_all
  have third: "stdout (sf_run simple_pathname ?argv (env_of []) (Inr ())
             (SfSetupSettled # [] @ [SfResponse (pdf_response ?u 200 ''%PDF'')] @ []
                @ [SfSignal] @ []))
       = [ResultLine (pdf_failed ''Static file detected but download did not complete'')]"
    by (subst sf_pdf_run(3) [OF parse_url_example parse_snapshot_example getEnvBool_unset,
          where post = "[]"])
       simp_all
  note second' = second [unfolded max_size_3 too_large_4_3]
  from first second' third show ?thesis
    by (simp add: sf_state0_def)
qed

text \<open>
  The amended C8 on a run with a 404 first, then the PDF, a later response for the same
  URL while the body is read and another one afterwards, and two termination signals;
  on the same run cut short by a signal during the read; and on the first run with the
  size cap set to 3 bytes.
\<close>

theorem staticfile_pdf_download_witness:
  "list_all (sf_ignored ''http://example.com/'')
     [SfResponse (not_found_response ''http://example.com/'')]
   \<and> list_all sf_waiting [SfResponse (pdf_response ''http://example.com/'' 200 ''later'')]
   \<and> SfSignal \<notin> set [SfResponse (pdf_response ''http://example.com/'' 200 ''last'')]
   \<and> int (length ''%PDF'') \<le> getEnvInt (env_of []) ''STATICFILE_MAX_SIZE'' (1024 * 1024 * 1024)
   \<and> sf_run simple_pathname [''--url=http://example.com/'', ''--snapshot-id=s1''] (env_of [])
        (Inr ())
        (SfSetupSettled # [SfResponse (not_found_response ''http://example.com/'')]
         @ [SfResponse (pdf_response ''http://example.com/'' 200 ''%PDF'')]
         @ [SfResponse (pdf_response ''http://example.com/'' 200 ''later'')]
         @ [SfBuffered]
         @ [SfResponse (pdf_response ''http://example.com/'' 200 ''last'')]
         @ [SfSignal] @ [SfSignal])
       = sf_state0\<lparr>originalUrl := ArgStr ''http://example.com/'', connects := 1,
             sf_listening := True, firstResponseHandled := True,
             detectedContentType := Some ''application/pdf'',
             isStaticFile := True, sf_files := [(''x.pdf'', ''%PDF'')],
             downloadedFilePath := Some ''x.pdf'',
             stdout := [ResultLine pdf_result], exit_code := Some 0\<rparr>
   \<and> sf_run simple_pathname [''--url=http://example.com/'', ''--snapshot-id=s1''] (env_of [])
        (Inr ())
        (SfSetupSettled # [SfResponse (not_found_response ''http://example.com/'')]
         @ [SfResponse (pdf_response ''http://example.com/'' 200 ''%PDF'')]
         @ [SfResponse (pdf_response ''http://example.com/'' 200 ''later'')]
         @ [SfSignal] @ [SfSignal])
       = sf_state0\<lparr>originalUrl := ArgStr ''http://example.com/'', connects := 1,
             sf_listening := True, firstResponseHandled := True,
             detectedContentType := Some ''application/pdf'',
             isStaticFile := True,
             sf_pending := Some (pdf_response ''http://example.com/'' 200 ''%PDF''),
             stdout := [ResultLine
               (pdf_failed ''Static file detected but download did not complete'')],
             exit_code := Some 0\<rparr>
   \<and> int (length ''%PDF'')
        > getEnvInt (env_of [(''STATICFILE_MAX_SIZE'', ''3'')]) ''STATICFILE_MAX_SIZE''
            (1024 * 1024 * 1024)
   \<and> sf_run simple_pathname [''--url=http://example.com/'', ''--snapshot-id=s1'']
        (env_of [(''STATICFILE_MAX_SIZE'', ''3'')]) (Inr ())
        (SfSetupSettled # [SfResponse (not_found_response ''http://example.com/'')]
         @ [SfResponse (pdf_response ''http://example.com/'' 200 ''%PDF'')]
         @ [SfResponse (pdf_response ''http://example.com/'' 200 ''later'')]
         @ [SfBuffered]
         @ [SfResponse (pdf_response ''http://example.com/'' 200 ''last'')]
         @ [SfSignal] @ [SfSignal])
       = sf_state0\<lparr>originalUrl := ArgStr ''http://example.com/'', connects := 1,
             sf_listening := True, firstResponseHandled := True,
             detectedContentType := Some ''application/pdf'',
             isStaticFile := True,
             downloadError := Some ''File too large: 4 bytes > 3 max'',
             stdout := [ResultLine (pdf_failed ''File too large: 4 bytes > 3 max'')],
             exit_code := Some 0\<rparr>"
proof -
  have a: "list_all (sf_ignored ''http://example.com/'')
     [SfResponse (not_found_response ''http://example.com/'')]"
    by (simp add: not_found_response_def)
  have b: "int (length ''%PDF'') \<le> getEnvInt (env_of []) ''STATICFILE_MAX_SIZE'' (1024 * 1024 * 1024)"
    by (simp add: max_size_default)
  have c: "SfSignal \<notin> set [SfResponse (pdf_response ''http://example.com/'' 200 ''last'')]"
    by simp
  have d: "list_all sf_waiting [SfResponse (pdf_response ''http://example.com/'' 200 ''later'')]"
    by simp
  have s: "(200 :: int) \<le> 200" "(200 :: int) < 300"
    by simp_all
  have g: "int (length ''%PDF'')
        > getEnvInt (env_of [(''STATICFILE_MAX_SIZE'', ''3'')]) ''STATICFILE_MAX_SIZE''
            (1024 * 1024 * 1024)"
    by (simp add: max_size_3)
  note small = staticfile_pdf_download [OF parse_url_example parse_snapshot_example
      getEnvBool_unset a s d c, of "''%PDF''" simple_pathname "[SfSignal]"]
  note large = staticfile_pdf_download [OF parse_url_example parse_snapshot_example
      getEnvBool_other a s d c, of "''%PDF''" simple_pathname "[SfSignal]",
      unfolded max_size_3 too_large_4_3]
  have h: "int (length ''%PDF'') > 3"
    by simp
  from small large a b c d g h show ?thesis
    by blast
qed


subsection \<open>C7: de-duplication in the DNS recorder\<close>

lemma dns_append_effect:
  assumes "made_by hn r" "rec_key r \<notin> seenResolutions st"
  shows "dns_effect hn ok st
           (dns_append ok r (st\<lparr>seenResolutions := insert (rec_key r) (seenResolutions st)\<rparr>))"
  using assms unfolding dns_effect_def by (intro disjI2 exI [of _ r]) (simp add: dns_append_def)

lemma on_responseReceived_effect:
  "dns_effect hn ok st (on_responseReceived hn st rid url ip port ok)"
proof (cases "url = [] \<or> ip = [] \<or> hn url = None \<or> hn url = Some [] \<or> hn url = Some ip
              \<or> the (hn url) @ '':'' @ ip \<in> seenResolutions st")
  case True
  then have "on_responseReceived hn st rid url ip port ok = st"
    by (auto simp: on_responseReceived_def extractHostname_def Let_def split: option.splits)
  then show ?thesis by (simp add: dns_effect_def)
next
  case False
  then obtain h where h: "hn url = Some h" by auto
  let ?r = "\<lparr>dr_hostname = h, dr_ip = Some ip,
             dr_port = (if port = Some 0 then None else port),
             dr_type = (if CHR '':'' \<in> set ip then ''AAAA'' else ''A''),
             dr_protocol = url_protocol url, dr_url = url, dr_requestId = rid,
             dr_error = None\<rparr>"
  have k: "rec_key ?r = h @ '':'' @ ip" by (simp add: rec_key_def)
  from False h have eq: "on_responseReceived hn st rid url ip port ok =
     dns_append ok ?r (st\<lparr>seenResolutions := insert (rec_key ?r) (seenResolutions st)\<rparr>)"
    unfolding k by (simp add: on_responseReceived_def extractHostname_def Let_def)
  have nk: "rec_key ?r \<notin> seenResolutions st" using False h unfolding k by simp
  have mb: "made_by hn ?r" using h by (auto simp: made_by_def)
  show ?thesis unfolding eq using mb nk by (rule dns_append_effect)
qed

lemma on_loadingFailed_effect:
  "dns_effect hn ok st (on_loadingFailed hn st rid errorText ok)"
proof (cases "\<exists>url h. requestUrls st rid = Some url \<and> url \<noteq> [] \<and> hn url = Some h \<and> h \<noteq> []
         \<and> (str_includes errorText ''net::ERR_NAME_NOT_RESOLVED''
              \<or> str_includes errorText ''net::ERR_NAME_RESOLUTION_FAILED'')
         \<and> h @ '':NXDOMAIN'' \<notin> seenResolutions st")
  case False
  then have "on_loadingFailed hn st rid errorText ok = st"
    by (auto simp: on_loadingFailed_def extractHostname_def Let_def split: option.splits)
  then show ?thesis by (simp add: dns_effect_def)
next
  case True
  then obtain url h where u: "requestUrls st rid = Some url" "url \<noteq> []" "hn url = Some h" "h \<noteq> []"
    "str_includes errorText ''net::ERR_NAME_NOT_RESOLVED''
              \<or> str_includes errorText ''net::ERR_NAME_RESOLUTION_FAILED''"
    "h @ '':NXDOMAIN'' \<notin> seenResolutions st" by blast
  let ?r = "\<lparr>dr_hostname = h, dr_ip = None, dr_port = None, dr_type = ''NXDOMAIN'',
             dr_protocol = url_protocol url, dr_url = url, dr_requestId = rid,
             dr_error = Some errorText\<rparr>"
  have k: "rec_key ?r = h @ '':NXDOMAIN''" by (simp add: rec_key_def)
  from u have eq: "on_loadingFailed hn st rid errorText ok =
     dns_append ok ?r (st\<lparr>seenResolutions := insert (rec_key ?r) (seenResolutions st)\<rparr>)"
    unfolding k by (simp add: on_loadingFailed_def extractHostname_def Let_def)
  have nk: "rec_key ?r \<notin> seenResolutions st" using u unfolding k by simp
  have mb: "made_by hn ?r" using u by (auto simp: made_by_def)
  show ?thesis unfolding eq using mb nk by (rule dns_append_effect)
qed

lemma dns_step_effect: "dns_effect hn (write_ok ev) st (dns_step hn st ev)"
proof (cases "dns_live st")
  case False
  then have "dns_file (dns_step hn st ev) = dns_file st
      \<and> seenResolutions (dns_step hn st ev) = seenResolutions st
      \<and> recordCount (dns_step hn st ev) = recordCount st"
    by (cases ev) (auto simp: dns_live_def dns_step_def dns_settle_def split: option.splits sum.splits)
  then show ?thesis by (simp add: dns_effect_def)
next
  case True
  then have live: "exit_code st = None" "\<not> dns_killed st" "dns_setup st = None" "dns_listening st"
    by (simp_all add: dns_live_def)
  show ?thesis
  proof (cases ev)
    case (ResponseReceived rid url ip port ok)
    with live show ?thesis by (simp add: dns_step_def on_responseReceived_effect)
  next
    case (LoadingFailed rid errorText ok)
    with live show ?thesis by (simp add: dns_step_def on_loadingFailed_effect)
  next
    case (RequestWillBeSent rid url)
    with live show ?thesis by (simp add: dns_step_def on_requestWillBeSent_def dns_effect_def)
  next
    case DnsSignal
    with live show ?thesis
      by (simp add: dns_step_def dns_handleShutdown_def dns_emitResult_def dns_effect_def)
  next
    case DnsSetupSettled
    with live show ?thesis by (simp add: dns_step_def dns_effect_def)
  qed
qed

lemma dns_effect_inv: "dns_effect hn ok st st' \<Longrightarrow> dns_inv hn st \<Longrightarrow> dns_inv hn st'"
  unfolding dns_effect_def dns_inv_def by (auto split: if_splits simp: image_subset_iff)

lemma dns_run_inv: "dns_inv hn st \<Longrightarrow> dns_inv hn (foldl (dns_step hn) st evs)"
proof (induction evs arbitrary: st)
  case Nil
  then show ?case by simp
next
  case (Cons ev evs)
  from dns_step_effect Cons.prems have "dns_inv hn (dns_step hn st ev)"
    by (rule dns_effect_inv)
  then show ?case by (simp add: Cons.IH)
qed

lemma dns_main_inv: "dns_inv hn (dns_main argv e setup)"
  by (simp add: dns_inv_def dns_main_def dns_state0_def split: sum.splits)

lemma dns_effect_seen_ok:
  "dns_effect hn True st st' \<Longrightarrow> seenResolutions st \<subseteq> set (map rec_key (dns_file st)) \<Longrightarrow>
   seenResolutions st' \<subseteq> set (map rec_key (dns_file st'))"
  unfolding dns_effect_def by auto

lemma dns_run_seen_ok:
  "list_all write_ok evs \<Longrightarrow> seenResolutions st \<subseteq> set (map rec_key (dns_file st)) \<Longrightarrow>
   seenResolutions (foldl (dns_step hn) st evs) \<subseteq> set (map rec_key (dns_file (foldl (dns_step hn) st evs)))"
proof (induction evs arbitrary: st)
  case Nil
  then show ?case by simp
next
  case (Cons ev evs)
  then have ok: "write_ok ev" and rest: "list_all write_ok evs" by simp_all
  have "dns_effect hn True st (dns_step hn st ev)"
    using dns_step_effect [of hn ev st] ok by simp
  then have "seenResolutions (dns_step hn st ev) \<subseteq> set (map rec_key (dns_file (dns_step hn st ev)))"
    using Cons.prems(2) by (rule dns_effect_seen_ok)
  from Cons.IH [OF rest this] show ?case by simp
qed

lemma dns_effect_seen_mono: "dns_effect hn ok st st' \<Longrightarrow> seenResolutions st \<subseteq> seenResolutions st'"
  unfolding dns_effect_def by auto

lemma dns_run_seen_mono: "seenResolutions st \<subseteq> seenResolutions (foldl (dns_step hn) st evs)"
proof (induction evs arbitrary: st)
  case Nil
  then show ?case by simp
next
  case (Cons ev evs)
  have "seenResolutions st \<subseteq> seenResolutions (dns_step hn st ev)"
    using dns_step_effect by (rule dns_effect_seen_mono)
  also have "\<dots> \<subseteq> seenResolutions (foldl (dns_step hn) (dns_step hn st ev) evs)"
    by (rule Cons.IH)
  finally show ?case by simp
qed

lemma dns_step_live: "dns_live st \<Longrightarrow> ev \<noteq> DnsSignal \<Longrightarrow> dns_live (dns_step hn st ev)"
  by (cases ev)
     (auto simp: dns_live_def dns_step_def on_requestWillBeSent_def on_responseReceived_def
        on_loadingFailed_def dns_append_def Let_def split: option.splits)

lemma dns_run_live:
  "dns_live st \<Longrightarrow> DnsSignal \<notin> set evs \<Longrightarrow> dns_live (foldl (dns_step hn) st evs)"
  by (induction evs arbitrary: st) (auto simp: dns_step_live)

lemma dns_step_cf:
  assumes "colon_free_event hn ev" "dns_cf_inv hn st"
  shows "dns_cf_inv hn (dns_step hn st ev)"
proof (cases "dns_live st")
  case False
  then have "dns_file (dns_step hn st ev) = dns_file st
      \<and> requestUrls (dns_step hn st ev) = requestUrls st"
    by (cases ev) (auto simp: dns_live_def dns_step_def dns_settle_def split: option.splits sum.splits)
  with assms(2) show ?thesis by (simp add: dns_cf_inv_def)
next
  case True
  then have live: "exit_code st = None" "\<not> dns_killed st" "dns_setup st = None" "dns_listening st"
    by (simp_all add: dns_live_def)
  show ?thesis
  proof (cases ev)
    case (ResponseReceived rid url ip port ok)
    with live assms show ?thesis
      by (auto simp: dns_step_def dns_cf_inv_def on_responseReceived_def extractHostname_def
          dns_append_def colon_free_url_def Let_def split: option.splits)
  next
    case (LoadingFailed rid errorText ok)
    with live assms show ?thesis
      by (auto simp: dns_step_def dns_cf_inv_def on_loadingFailed_def extractHostname_def
          dns_append_def colon_free_url_def Let_def split: option.splits)
  next
    case (RequestWillBeSent rid url)
    with live assms show ?thesis
      by (auto simp: dns_step_def dns_cf_inv_def on_requestWillBeSent_def)
  next
    case DnsSignal
    with live assms show ?thesis
      by (simp add: dns_step_def dns_cf_inv_def dns_handleShutdown_def dns_emitResult_def)
  next
    case DnsSetupSettled
    with live assms show ?thesis by (simp add: dns_step_def)
  qed
qed

lemma dns_run_cf:
  "list_all (colon_free_event hn) evs \<Longrightarrow> dns_cf_inv hn st \<Longrightarrow>
   dns_cf_inv hn (foldl (dns_step hn) st evs)"
  by (induction evs arbitrary: st) (simp_all add: dns_step_cf)

lemma resolves_seen:
  assumes "dns_live st" "resolves hn h a ev" "h \<noteq> []" "a \<noteq> []" "h \<noteq> a"
  shows "h @ '':'' @ a \<in> seenResolutions (dns_step hn st ev)"
  using assms
  by (cases ev)
     (auto simp: dns_live_def dns_step_def on_responseReceived_def extractHostname_def
        dns_append_def Let_def)

lemma distinct_key_filter:
  "distinct (map f xs) \<Longrightarrow> (\<forall>x\<in>set xs. P x \<longrightarrow> f x = k) \<Longrightarrow> length (filter P xs) \<le> 1"
proof (induction xs)
  case Nil
  then show ?case by simp
next
  case (Cons x xs)
  show ?case
  proof (cases "P x")
    case True
    with Cons.prems have fx: "f x = k" and nin: "f x \<notin> f ` set xs" by simp_all
    have "\<not> P y" if y: "y \<in> set xs" for y
    proof
      assume "P y"
      with Cons.prems(2) y have "f y = k" by simp
      with fx y have "f x \<in> f ` set xs" by (metis imageI)
      with nin show False by contradiction
    qed
    then have "filter P xs = []" by (simp add: filter_empty_conv)
    with True show ?thesis by simp
  next
    case False
    with Cons show ?thesis by simp
  qed
qed

lemma filter_two_values:
  "a \<noteq> b \<Longrightarrow>
   length (filter (\<lambda>r. P r \<and> (g r = a \<or> g r = b)) xs)
     = length (filter (\<lambda>r. P r \<and> g r = a) xs) + length (filter (\<lambda>r. P r \<and> g r = b) xs)"
  by (induction xs) auto

lemma key_split:
  assumes "CHR '':'' \<notin> set h" "CHR '':'' \<notin> set h'" "h @ '':'' @ x = h' @ '':'' @ y"
  shows "h = h' \<and> x = y"
proof -
  have "\<forall>c\<in>set h. c \<noteq> CHR '':''" and "\<forall>c\<in>set h'. c \<noteq> CHR '':''"
    using assms(1,2) by auto
  then have "takeWhile (\<lambda>c. c \<noteq> CHR '':'') (h @ '':'' @ x) = h"
    and "takeWhile (\<lambda>c. c \<noteq> CHR '':'') (h' @ '':'' @ y) = h'"
    by (simp_all add: takeWhile_append2)
  then have "h = h'" using assms(3) by simp
  with assms(3) show ?thesis by simp
qed

text \<open>In every state of every run the file holds at most one record per key.\<close>

lemma dns_bounds:
  shows "length (records_for x y (dns_file (dns_run hn argv e setup evs))) \<le> 1"
    and "length (filter (\<lambda>r. dr_hostname r = x \<and> dr_type r = ''NXDOMAIN'')
                   (dns_file (dns_run hn argv e setup evs))) \<le> 1"
proof -
  let ?out = "dns_file (dns_run hn argv e setup evs)"
  have "dns_inv hn (dns_run hn argv e setup evs)"
    unfolding dns_run_def by (intro dns_run_inv dns_main_inv)
  then have dist: "distinct (map rec_key ?out)" and made: "\<forall>r\<in>set ?out. made_by hn r"
    by (simp_all add: dns_inv_def)
  have "\<forall>r\<in>set ?out. dr_hostname r = x \<and> dr_ip r = y
          \<longrightarrow> rec_key r = x @ '':'' @ (case y of Some a \<Rightarrow> a | None \<Rightarrow> ''NXDOMAIN'')"
    by (simp add: rec_key_def)
  with dist show "length (records_for x y ?out) \<le> 1"
    unfolding records_for_def by (rule distinct_key_filter)
  have "\<forall>r\<in>set ?out. dr_hostname r = x \<and> dr_type r = ''NXDOMAIN''
          \<longrightarrow> rec_key r = x @ '':NXDOMAIN''"
    using made by (auto simp: rec_key_def made_by_def)
  with dist show "length (filter (\<lambda>r. dr_hostname r = x \<and> dr_type r = ''NXDOMAIN'') ?out) \<le> 1"
    by (rule distinct_key_filter)
qed

lemma dns_start:
  assumes "parseArgs argv ''url'' = Some u" "parseArgs argv ''snapshot_id'' = Some sid"
    "getEnvBool e ''DNS_ENABLED'' True"
  shows "dns_step hn (dns_main argv e (Inr ())) DnsSetupSettled
           = dns_state0\<lparr>connects := 1, dns_listening := True\<rparr>"
  using assms
  by (simp add: dns_main_def hook_prologue_enabled dns_step_def dns_settle_def dns_state0_def)

lemma dns_signal_file:
  "dns_file (dns_step hn st DnsSignal) = dns_file st
   \<and> seenResolutions (dns_step hn st DnsSignal) = seenResolutions st"
  by (simp add: dns_step_def dns_handleShutdown_def dns_emitResult_def split: option.splits)

lemma dns_signal_exits: "dns_live st \<Longrightarrow> exit_code (dns_step hn st DnsSignal) \<noteq> None"
  by (simp add: dns_live_def dns_step_def dns_handleShutdown_def)

lemma dns_one_record:
  assumes args: "parseArgs argv ''url'' = Some u" "parseArgs argv ''snapshot_id'' = Some sid"
      and on: "getEnvBool e ''DNS_ENABLED'' True"
      and nosig: "DnsSignal \<notin> set evs"
      and ok: "list_all write_ok evs"
      and cf: "list_all (colon_free_event hn) evs"
      and res: "resolved_in hn h a evs"
  shows "length (records_for h (Some a) (dns_output hn argv e (evs @ DnsSignal # rest))) = 1"
proof -
  let ?st0 = "dns_state0\<lparr>connects := 1, dns_listening := True\<rparr>"
  let ?st1 = "foldl (dns_step hn) ?st0 evs"
  let ?st2 = "dns_step hn ?st1 DnsSignal"
  let ?out = "dns_output hn argv e (evs @ DnsSignal # rest)"
  have live0: "dns_live ?st0" by (simp add: dns_live_def dns_state0_def)
  have cf0: "dns_cf_inv hn ?st0" by (simp add: dns_cf_inv_def dns_state0_def)
  have live1: "dns_live ?st1" using live0 nosig by (rule dns_run_live)
  have cf1: "dns_cf_inv hn ?st1" using cf cf0 by (rule dns_run_cf)
  have "foldl (dns_step hn) ?st2 rest = ?st2"
    using live1 by (intro dns_exited dns_signal_exits)
  then have "dns_run hn argv e (Inr ()) (DnsSetupSettled # evs @ DnsSignal # rest) = ?st2"
    by (simp add: dns_run_def dns_start [OF args on])
  then have out: "?out = dns_file ?st1"
    by (simp add: dns_output_def dns_signal_file)
  have le: "length (records_for h (Some a) ?out) \<le> 1"
    unfolding dns_output_def by (rule dns_bounds(1))
  from res obtain ev where ev: "ev \<in> set evs" "resolves hn h a ev"
    and ne: "h \<noteq> []" "a \<noteq> []" "h \<noteq> a" "a \<noteq> ''NXDOMAIN''"
    by (auto simp: resolved_in_def list_ex_iff)
  from ev(1) obtain xs ys where evs: "evs = xs @ ev # ys"
    by (auto simp: in_set_conv_decomp)
  have "dns_live (foldl (dns_step hn) ?st0 xs)"
    using live0 nosig unfolding evs by (intro dns_run_live) simp_all
  then have "h @ '':'' @ a \<in> seenResolutions (dns_step hn (foldl (dns_step hn) ?st0 xs) ev)"
    using ev(2) ne(1-3) by (rule resolves_seen)
  also have "\<dots> \<subseteq> seenResolutions ?st1"
    unfolding evs by (simp add: dns_run_seen_mono)
  also have "\<dots> \<subseteq> set (map rec_key (dns_file ?st1))"
    using ok by (rule dns_run_seen_ok) (simp add: dns_state0_def)
  finally obtain r where r: "r \<in> set ?out" "rec_key r = h @ '':'' @ a"
    unfolding out by auto
  from cf ev(1) have "colon_free_event hn ev" by (simp add: list_all_iff)
  with ev(2) have ch: "CHR '':'' \<notin> set h"
    by (cases ev) (auto simp: colon_free_url_def)
  from cf1 r(1) have cr: "CHR '':'' \<notin> set (dr_hostname r)"
    unfolding out by (simp add: dns_cf_inv_def)
  from key_split [OF cr ch] r(2)
  have "dr_hostname r = h" "(case dr_ip r of Some a \<Rightarrow> a | None \<Rightarrow> ''NXDOMAIN'') = a"
    by (simp_all add: rec_key_def)
  with ne(4) have "dr_hostname r = h \<and> dr_ip r = Some a"
    by (cases "dr_ip r") simp_all
  with r(1) have "r \<in> set (records_for h (Some a) ?out)"
    by (simp add: records_for_def)
  then have "length (records_for h (Some a) ?out) \<noteq> 0"
    by (metis length_0_conv empty_iff list.set(1))
  with le show ?thesis
    by linarith
qed

text \<open>
  C7 (amended): in every run of the DNS recorder, whatever its events, the output holds
  at most one record for any (hostname, address) pair and at most one \<open>NXDOMAIN\<close> record
  for any hostname. In a run whose setup succeeds and that goes on to its termination
  signal: if no append fails, no URL of the run has a hostname with a colon, and some
  response resolves the hostname \<open>h\<close> to an address \<open>a\<close> that is not empty, differs from
  \<open>h\<close> itself (a URL whose host is already that address is skipped) and is not the text
  \<open>NXDOMAIN\<close>, then the output holds exactly one record for \<open>(h, a)\<close>, however many such
  responses there are; and when \<open>h\<close> is resolved in this way to two distinct addresses,
  exactly two records for \<open>h\<close> with these addresses.
\<close>

theorem dns_dedup:
  assumes "parseArgs argv ''url'' = Some u"
      and "parseArgs argv ''snapshot_id'' = Some sid"
      and "getEnvBool e ''DNS_ENABLED'' True"
      and "DnsSignal \<notin> set evs"
  shows "length (records_for h' ip' (dns_file (dns_run hn argv' e' outcome all_evs))) \<le> 1
       \<and> length (filter (\<lambda>r. dr_hostname r = h' \<and> dr_type r = ''NXDOMAIN'')
                   (dns_file (dns_run hn argv' e' outcome all_evs))) \<le> 1
       \<and> (list_all write_ok evs \<and> list_all (colon_free_event hn) evs \<and> resolved_in hn h a evs
            \<longrightarrow>
            length (records_for h (Some a) (dns_output hn argv e (evs @ DnsSignal # rest))) = 1)
       \<and> (list_all write_ok evs \<and> list_all (colon_free_event hn) evs \<and> resolved_in hn h a evs
            \<and> resolved_in hn h b evs \<and> a \<noteq> b \<longrightarrow>
            length (filter (\<lambda>r. dr_hostname r = h \<and> (dr_ip r = Some a \<or> dr_ip r = Some b))
                      (dns_output hn argv e (evs @ DnsSignal # rest))) = 2)"
proof (intro conjI impI)
  let ?out = "dns_output hn argv e (evs @ DnsSignal # rest)"
  show "length (records_for h' ip' (dns_file (dns_run hn argv' e' outcome all_evs))) \<le> 1"
    by (rule dns_bounds(1))
  show "length (filter (\<lambda>r. dr_hostname r = h' \<and> dr_type r = ''NXDOMAIN'')
                   (dns_file (dns_run hn argv' e' outcome all_evs))) \<le> 1"
    by (rule dns_bounds(2))
  show "length (records_for h (Some a) ?out) = 1"
    if "list_all write_ok evs \<and> list_all (colon_free_event hn) evs \<and> resolved_in hn h a evs"
    using assms that by (intro dns_one_record) simp_all
  show "length (filter (\<lambda>r. dr_hostname r = h \<and> (dr_ip r = Some a \<or> dr_ip r = Some b)) ?out) = 2"
    if h: "list_all write_ok evs \<and> list_all (colon_free_event hn) evs \<and> resolved_in hn h a evs
            \<and> resolved_in hn h b evs \<and> a \<noteq> b"
  proof -
    have one_a: "length (records_for h (Some a) ?out) = 1"
      using assms h by (intro dns_one_record) simp_all
    have one_b: "length (records_for h (Some b) ?out) = 1"
      using assms h by (intro dns_one_record) simp_all
    have "length (filter (\<lambda>r. dr_hostname r = h \<and> (dr_ip r = Some a \<or> dr_ip r = Some b)) ?out)
          = length (records_for h (Some a) ?out) + length (records_for h (Some b) ?out)"
      unfolding records_for_def using h by (intro filter_two_values) simp
    then show ?thesis
      using one_a one_b by simp
  qed
qed

lemma dns_start_example:
  "dns_step hn (dns_main [''--url=http://example.com/'', ''--snapshot-id=s1''] (env_of []) (Inr ()))
     DnsSetupSettled
     = dns_state0\<lparr>connects := 1, dns_listening := True\<rparr>"
  by (rule dns_start [OF parse_url_example parse_snapshot_example getEnvBool_unset])

lemmas hostname_simps = simple_hostname_def startsWith_def lower_char_def Let_def

text \<open>
  C7 (as stated, refuted): two responses from \<open>http://10.0.0.1/...\<close>, whose hostname
  \<open>10.0.0.1\<close> resolves to the address \<open>10.0.0.1\<close>, produce no record at all.
\<close>

theorem dns_ip_literal_counterexample:
  "dns_output simple_hostname [''--url=http://example.com/'', ''--snapshot-id=s1''] (env_of [])
     [ResponseReceived ''r1'' ''http://10.0.0.1/'' ''10.0.0.1'' (Some 80) True,
      ResponseReceived ''r2'' ''http://10.0.0.1/logo.png'' ''10.0.0.1'' (Some 80) True,
      DnsSignal] = []"
  unfolding dns_output_def dns_run_def foldl_Cons dns_start_example
  by (simp add: dns_step_def on_responseReceived_def extractHostname_def hostname_simps
      dns_state0_def dns_handleShutdown_def dns_emitResult_def)

text \<open>The sample run writes four records.\<close>

lemma dns_example_output:
  "map (\<lambda>r. (dr_hostname r, dr_ip r, dr_type r))
     (dns_output simple_hostname [''--url=http://example.com/'', ''--snapshot-id=s1''] (env_of [])
        (dns_example_events @ DnsSignal # []))
   = [(''example.com'', Some ''93.184.216.34'', ''A''),
      (''example.com'', Some ''93.184.216.35'', ''A''),
      (''example.com'', Some ''[2606:2800:220:1::1]'', ''AAAA''),
      (''gone.example'', None, ''NXDOMAIN'')]"
  unfolding dns_output_def dns_run_def foldl_Cons dns_start_example dns_example_events_def
  by (simp add: dns_step_def on_responseReceived_def on_loadingFailed_def on_requestWillBeSent_def
      extractHostname_def hostname_simps dns_state0_def dns_append_def
      dns_handleShutdown_def dns_emitResult_def)

text \<open>The amended C7 on the sample run.\<close>

theorem dns_dedup_witness:
  "DnsSignal \<notin> set dns_example_events
   \<and> list_all write_ok dns_example_events
   \<and> list_all (colon_free_event simple_hostname) dns_example_events
   \<and> resolved_in simple_hostname ''example.com'' ''93.184.216.34'' dns_example_events
   \<and> resolved_in simple_hostname ''example.com'' ''93.184.216.35'' dns_example_events
   \<and> length (records_for ''gone.example'' None
        (dns_file (dns_run simple_hostname [''--url=http://example.com/'', ''--snapshot-id=s1'']
           (env_of []) (Inr ()) (DnsSetupSettled # dns_example_events)))) \<le> 1
   \<and> length (filter (\<lambda>r. dr_hostname r = ''gone.example'' \<and> dr_type r = ''NXDOMAIN'')
        (dns_file (dns_run simple_hostname [''--url=http://example.com/'', ''--snapshot-id=s1'']
           (env_of []) (Inr ()) (DnsSetupSettled # dns_example_events)))) \<le> 1
   \<and> length (records_for ''example.com'' (Some ''93.184.216.34'')
        (dns_output simple_hostname [''--url=http://example.com/'', ''--snapshot-id=s1'']
           (env_of []) (dns_example_events @ DnsSignal # []))) = 1
   \<and> length (filter (\<lambda>r. dr_hostname r = ''example.com''
                 \<and> (dr_ip r = Some ''93.184.216.34'' \<or> dr_ip r = Some ''93.184.216.35''))
        (dns_output simple_hostname [''--url=http://example.com/'', ''--snapshot-id=s1'']
           (env_of []) (dns_example_events @ DnsSignal # []))) = 2"
proof -
  have a: "DnsSignal \<notin> set dns_example_events"
    by (simp add: dns_example_events_def)
  have b: "list_all write_ok dns_example_events"
    by (simp add: dns_example_events_def)
  have c: "resolved_in simple_hostname ''example.com'' ''93.184.216.34'' dns_example_events"
    by (simp add: resolved_in_def dns_example_events_def hostname_simps)
  have d: "resolved_in simple_hostname ''example.com'' ''93.184.216.35'' dns_example_events"
    by (simp add: resolved_in_def dns_example_events_def hostname_simps)
  have f: "list_all (colon_free_event simple_hostname) dns_example_events"
    by (simp add: dns_example_events_def colon_free_url_def hostname_simps)
  show ?thesis
    using dns_dedup [OF parse_url_example parse_snapshot_example getEnvBool_unset a,
        where h' = "''gone.example''" and ip' = None and hn = simple_hostname
          and argv' = "[''--url=http://example.com/'', ''--snapshot-id=s1'']"
          and e' = "env_of []" and outcome = "Inr ()"
          and all_evs = "DnsSetupSettled # dns_example_events" and rest = "[]"
          and h = "''example.com''" and a = "''93.184.216.34''" and b = "''93.184.216.35''"]
      a b c d f
    by simp
qed


subsection \<open>C4: the result line on standard output\<close>






























text \<open>The tab allocator.\<close>

lemma result_lines_append: "result_lines (xs @ ys) = result_lines xs @ result_lines ys"
  by (simp add: result_lines_def)

lemma tab_emitResult_out:
  "\<not> finalized st \<Longrightarrow>
   result_lines (stdout (tab_emitResult s st)) = result_lines (stdout st) @ [last (stdout (tab_emitResult s st))]
   \<and> finalized (tab_emitResult s st) \<and> exit_code (tab_emitResult s st) = exit_code st"
  by (simp add: tab_emitResult_def Let_def result_lines_def)










































subsection \<open>C5: the tab allocator without a live session\<close>

lemma no_live_session_iff: "findCrawlChromeSession e w = None \<longleftrightarrow> no_live_session e w"
  by (auto simp: findCrawlChromeSession_def no_live_session_def Let_def
      split: option.splits fs_file.splits)

lemma tab_main_spawned: "tab_spawned (tab_main argv e w) = []"
  by (simp add: tab_main_def tab_finish_def tab_emitResult_def createTabInExistingChrome_begin_def
      tab_state0_def Let_def split: option.splits sum.splits prod.splits argval.splits)

lemma tab_main_no_session:
  assumes "parseArgs argv ''url'' = Some u" "parseArgs argv ''snapshot_id'' = Some sid"
    "tw_binary w = Some binary" "findCrawlChromeSession e w = None"
  shows "tab_main argv e w =
     tab_state0\<lparr>finalError := no_session_error, cmdVersion := tw_version w, finalized := True,
        stdout := [ResultLine \<lparr>ar_status = Failed, ar_output_str = no_session_error,
           ar_fields = (if tw_version w \<noteq> [] then [(''cmd_version'', tw_version w)] else [])\<rparr>],
        exit_code := Some 1\<rparr>"
  using assms
  by (simp add: tab_main_def tab_finish_def tab_emitResult_def tab_state0_def Let_def
      no_session_error_def)

text \<open>
  C5 (amended): for every invocation of the tab allocator where no live crawl-level
  session is found, the hook spawns no browser process, attempts no connection and exits
  with code 1, whatever signals follow; and when its usage arguments are present and a
  browser binary is found, it prints exactly one line, the failed result with the
  no-session message.
\<close>

theorem tab_allocator_no_session:
  assumes "no_live_session e w"
  shows "tab_spawned (tab_run argv e w sigs) = []
       \<and> connects (tab_run argv e w sigs) = 0
       \<and> exit_code (tab_run argv e w sigs) = Some 1
       \<and> (parseArgs argv ''url'' \<noteq> None \<and> parseArgs argv ''snapshot_id'' \<noteq> None
            \<and> tw_binary w \<noteq> None \<longrightarrow>
            stdout (tab_run argv e w sigs)
              = [ResultLine \<lparr>ar_status = Failed, ar_output_str = no_session_error,
                   ar_fields = (if tw_version w \<noteq> [] then [(''cmd_version'', tw_version w)]
                                else [])\<rparr>])"
proof -
  from assms have none: "findCrawlChromeSession e w = None"
    by (simp add: no_live_session_iff)
  have ex: "exit_code (tab_main argv e w) = Some 1" and co: "connects (tab_main argv e w) = 0"
    using none
    by (simp_all add: tab_main_def tab_finish_def tab_emitResult_def tab_state0_def Let_def
        split: option.splits)
  then have run: "tab_run argv e w sigs = tab_main argv e w"
    by (simp add: tab_run_def tab_exited)
  show ?thesis
  proof (intro conjI impI)
    show "tab_spawned (tab_run argv e w sigs) = []" by (simp add: run tab_main_spawned)
    show "connects (tab_run argv e w sigs) = 0" by (simp add: run co)
    show "exit_code (tab_run argv e w sigs) = Some 1" by (simp add: run ex)
    show "stdout (tab_run argv e w sigs)
              = [ResultLine \<lparr>ar_status = Failed, ar_output_str = no_session_error,
                   ar_fields = (if tw_version w \<noteq> [] then [(''cmd_version'', tw_version w)]
                                else [])\<rparr>]"
      if "parseArgs argv ''url'' \<noteq> None \<and> parseArgs argv ''snapshot_id'' \<noteq> None
            \<and> tw_binary w \<noteq> None"
    proof -
      from that obtain u sid binary where "parseArgs argv ''url'' = Some u"
        "parseArgs argv ''snapshot_id'' = Some sid" "tw_binary w = Some binary" by auto
      from tab_main_no_session [OF this none] show ?thesis
        by (simp add: run tab_state0_def)
    qed
  qed
qed

text \<open>The fallback path would spawn a process; no run of \<open>main\<close> does.\<close>

lemma launchNewChrome_spawns:
  "tab_spawned (launchNewChrome_spawn binary chromeArgs debugPort pid st) \<noteq> []"
  by (simp add: launchNewChrome_spawn_def)

text \<open>
  C5 (as stated, refuted): with no session markers and no browser binary installed, the
  hook exits with code 1 without emitting any result.
\<close>

theorem tab_allocator_no_binary_counterexample:
  "no_live_session (env_of []) world_no_binary
   \<and> stdout (tab_run [''--url=http://example.com/'', ''--snapshot-id=s1''] (env_of [])
               world_no_binary []) = []
   \<and> exit_code (tab_run [''--url=http://example.com/'', ''--snapshot-id=s1''] (env_of [])
               world_no_binary []) = Some 1"
  by (simp add: no_live_session_def getEnv_def env_of_def trim_simps tab_run_def tab_main_def
      parse_url_example parse_snapshot_example world_no_binary_def tab_state0_def Let_def)

lemma dead_session_not_live:
  "no_live_session (env_of [(''CRAWL_OUTPUT_DIR'', ''/data/crawl'')]) world_dead_session"
  by (simp add: no_live_session_def getEnv_def env_of_def trim_simps path_join_def
      world_dead_session_def fs_of_def parseInt_def is_digit_def nothing_alive_def Let_def)

text \<open>The amended C5 on a session whose recorded process 4242 is dead.\<close>

theorem tab_allocator_no_session_witness:
  "no_live_session (env_of [(''CRAWL_OUTPUT_DIR'', ''/data/crawl'')]) world_dead_session
   \<and> parseArgs [''--url=http://example.com/'', ''--snapshot-id=s1''] ''url'' \<noteq> None
   \<and> parseArgs [''--url=http://example.com/'', ''--snapshot-id=s1''] ''snapshot_id'' \<noteq> None
   \<and> tw_binary world_dead_session \<noteq> None
   \<and> tab_spawned (tab_run [''--url=http://example.com/'', ''--snapshot-id=s1'']
        (env_of [(''CRAWL_OUTPUT_DIR'', ''/data/crawl'')]) world_dead_session [TabSignal True]) = []
   \<and> connects (tab_run [''--url=http://example.com/'', ''--snapshot-id=s1'']
        (env_of [(''CRAWL_OUTPUT_DIR'', ''/data/crawl'')]) world_dead_session [TabSignal True]) = 0
   \<and> exit_code (tab_run [''--url=http://example.com/'', ''--snapshot-id=s1'']
        (env_of [(''CRAWL_OUTPUT_DIR'', ''/data/crawl'')]) world_dead_session [TabSignal True]) = Some 1
   \<and> stdout (tab_run [''--url=http://example.com/'', ''--snapshot-id=s1'']
        (env_of [(''CRAWL_OUTPUT_DIR'', ''/data/crawl'')]) world_dead_session [TabSignal True])
       = [ResultLine \<lparr>ar_status = Failed, ar_output_str = no_session_error,
            ar_fields = [(''cmd_version'', ''Chromium 120.0'')]\<rparr>]"
  using tab_allocator_no_session [OF dead_session_not_live,
      of "[''--url=http://example.com/'', ''--snapshot-id=s1'']" "[TabSignal True]"]
    dead_session_not_live
  by (simp add: parse_url_example parse_snapshot_example world_dead_session_def)


subsection \<open>C6: the zombie reaper on one marker file\<close>

text \<open>
  C6 (amended): for every marker file the reaper collects: if the crawl directory was
  modified within the staleness threshold, nothing is done; if it is stale and the
  recorded process is dead, the marker file is unlinked and no kill signal is sent; if
  it is stale and the process is alive, \<open>SIGKILL\<close> is sent to the process group, and to
  the single process only if that fails, and the marker file is unlinked exactly when
  one of the two kills succeeded: when both fail the marker file is left in place.
\<close>

theorem reaper_cases:
  "(c_mtimeMs c = Some m \<and> m > now - 300000 \<longrightarrow> reap_one now st c = st)
   \<and> (is_stale now c \<and> recorded_pid c = Some pid \<and> \<not> c_alive c \<longrightarrow>
         reap_one now st c
           = st\<lparr>reap_actions := reap_actions st @ [Probe pid, Unlink (pidFile c)],
                reap_removed := (if c_unlink_ok c then reap_removed st @ [pidFile c]
                                 else reap_removed st)\<rparr>)
   \<and> (is_stale now c \<and> recorded_pid c = Some pid \<and> c_alive c \<and> c_group_kill_ok c \<longrightarrow>
         reap_one now st c
           = st\<lparr>reap_actions := reap_actions st @ [Probe pid, SigKill (- pid), Unlink (pidFile c)],
                killed := killed st + 1,
                reap_removed := (if c_unlink_ok c then reap_removed st @ [pidFile c]
                                 else reap_removed st)\<rparr>)
   \<and> (is_stale now c \<and> recorded_pid c = Some pid \<and> c_alive c \<and> \<not> c_group_kill_ok c
        \<and> c_single_kill_ok c \<longrightarrow>
         reap_one now st c
           = st\<lparr>reap_actions := reap_actions st
                   @ [Probe pid, SigKill (- pid), SigKill pid, Unlink (pidFile c)],
                killed := killed st + 1,
                reap_removed := (if c_unlink_ok c then reap_removed st @ [pidFile c]
                                 else reap_removed st)\<rparr>)
   \<and> (is_stale now c \<and> recorded_pid c = Some pid \<and> c_alive c \<and> \<not> c_group_kill_ok c
        \<and> \<not> c_single_kill_ok c \<longrightarrow>
         reap_one now st c
           = st\<lparr>reap_actions := reap_actions st @ [Probe pid, SigKill (- pid), SigKill pid]\<rparr>)"
  by (auto simp: reap_one_def is_stale_def recorded_pid_def unlinkSync_def Let_def
      split: option.splits if_splits)

lemma sample_pid: "recorded_pid (sample_candidate m a g k) = Some 4242"
  by (simp add: recorded_pid_def sample_candidate_def trim_simps parseInt_def
      is_digit_def digits_val_def digit_val_def)

lemma sample_stale: "is_stale 1000000 (sample_candidate 0 a g k)"
  by (simp add: is_stale_def sample_candidate_def)

text \<open>
  C6 (as stated, refuted): a stale crawl, a live process, and both kill attempts
  failing: the marker file is not removed.
\<close>

theorem reaper_keeps_marker_counterexample:
  "is_stale 1000000 (sample_candidate 0 True False False)
   \<and> c_alive (sample_candidate 0 True False False)
   \<and> reap_all 1000000 [sample_candidate 0 True False False]
       = \<lparr>killed = 0, reap_actions = [Probe 4242, SigKill (- 4242), SigKill 4242],
          reap_removed = []\<rparr>"
  by (simp add: reap_all_def reap_one_def reap_state0_def is_stale_def sample_candidate_def
      trim_simps parseInt_def is_digit_def digits_val_def digit_val_def Let_def)

text \<open>The amended C6 on the sample marker file, once for each of its five cases.\<close>

theorem reaper_cases_witness:
  "reap_one 1000000 reap_state0 (sample_candidate 900000 True True True) = reap_state0
   \<and> reap_one 1000000 reap_state0 (sample_candidate 0 False True True)
       = \<lparr>killed = 0, reap_actions = [Probe 4242, Unlink ''/data/crawl1/chrome/chrome.pid''],
          reap_removed = [''/data/crawl1/chrome/chrome.pid'']\<rparr>
   \<and> reap_one 1000000 reap_state0 (sample_candidate 0 True True False)
       = \<lparr>killed = 1,
          reap_actions = [Probe 4242, SigKill (- 4242), Unlink ''/data/crawl1/chrome/chrome.pid''],
          reap_removed = [''/data/crawl1/chrome/chrome.pid'']\<rparr>
   \<and> reap_one 1000000 reap_state0 (sample_candidate 0 True False True)
       = \<lparr>killed = 1,
          reap_actions = [Probe 4242, SigKill (- 4242), SigKill 4242,
                          Unlink ''/data/crawl1/chrome/chrome.pid''],
          reap_removed = [''/data/crawl1/chrome/chrome.pid'']\<rparr>
   \<and> reap_one 1000000 reap_state0 (sample_candidate 0 True False False)
       = \<lparr>killed = 0, reap_actions = [Probe 4242, SigKill (- 4242), SigKill 4242],
          reap_removed = []\<rparr>"
proof (intro conjI)
  show "reap_one 1000000 reap_state0 (sample_candidate 900000 True True True) = reap_state0"
    using reaper_cases [of "sample_candidate 900000 True True True" 900000 1000000 reap_state0]
    by (simp add: sample_candidate_def)
  show "reap_one 1000000 reap_state0 (sample_candidate 0 False True True)
       = \<lparr>killed = 0, reap_actions = [Probe 4242, Unlink ''/data/crawl1/chrome/chrome.pid''],
          reap_removed = [''/data/crawl1/chrome/chrome.pid'']\<rparr>"
    using reaper_cases [of "sample_candidate 0 False True True" _ 1000000 reap_state0 4242]
      sample_stale sample_pid
    by (simp add: sample_candidate_def reap_state0_def)
  show "reap_one 1000000 reap_state0 (sample_candidate 0 True True False)
       = \<lparr>killed = 1,
          reap_actions = [Probe 4242, SigKill (- 4242), Unlink ''/data/crawl1/chrome/chrome.pid''],
          reap_removed = [''/data/crawl1/chrome/chrome.pid'']\<rparr>"
    using reaper_cases [of "sample_candidate 0 True True False" _ 1000000 reap_state0 4242]
      sample_stale sample_pid
    by (simp add: sample_candidate_def reap_state0_def)
  show "reap_one 1000000 reap_state0 (sample_candidate 0 True False True)
       = \<lparr>killed = 1,
          reap_actions = [Probe 4242, SigKill (- 4242), SigKill 4242,
                          Unlink ''/data/crawl1/chrome/chrome.pid''],
          reap_removed = [''/data/crawl1/chrome/chrome.pid'']\<rparr>"
    using reaper_cases [of "sample_candidate 0 True False True" _ 1000000 reap_state0 4242]
      sample_stale sample_pid
    by (simp add: sample_candidate_def reap_state0_def)
  show "reap_one 1000000 reap_state0 (sample_candidate 0 True False False)
       = \<lparr>killed = 0, reap_actions = [Probe 4242, SigKill (- 4242), SigKill 4242],
          reap_removed = []\<rparr>"
    using reaper_cases [of "sample_candidate 0 True False False" _ 1000000 reap_state0 4242]
      sample_stale sample_pid
    by (simp add: sample_candidate_def reap_state0_def)
qed


subsection \<open>C9: the cookie import\<close>























text \<open>
  A line whose last field, the value, is empty ends in a tab. The trim of the line
  removes it, six fields are left, and the line is counted as skipped.
\<close>

lemma cookie_empty_value_line:
  "length (split_char CHR 0x09
      (tabbed [''example.com'', ''TRUE'', ''/'', ''FALSE'', ''0'', ''flag'', []])) = 7
   \<and> parse_cookie_line (tabbed [''example.com'', ''TRUE'', ''/'', ''FALSE'', ''0'', ''flag'', []])
       = Malformed"
  by (simp add: parse_cookie_line_def data_line_def trim_simps tabbed_def startsWith_def)



subsection \<open>C10: the page returned by connectToPage\<close>

lemma waitForChromeSession_ready:
  "waitForChromeSession w timeoutMs elapsed = Some t \<Longrightarrow>
   cw_cdp_file w t \<noteq> None \<and> cw_target_file w t \<noteq> None \<and> t < timeoutMs"
proof (induction w timeoutMs elapsed rule: waitForChromeSession.induct)
  case (1 w timeoutMs elapsed)
  from "1.prems" show ?case
    by (subst (asm) waitForChromeSession.simps) (auto split: if_splits dest: "1.IH")
qed

lemma connectToPage_throws_iff:
  "(\<exists>err. connectToPage w timeoutMs = Inl err) \<longleftrightarrow>
     (\<not> cw_puppeteer w
      \<or> (case waitForChromeSession w timeoutMs 0 of
            None \<Rightarrow> True
          | Some t \<Rightarrow>
              cw_cdp_file w t = Some Unreadable
              \<or> cw_target_file w t = Some Unreadable
              \<or> (case cw_cdp_file w t of
                    Some (Content cdp) \<Rightarrow>
                      trim cdp = []
                      \<or> (case cw_connect w (trim cdp) of Inl e \<Rightarrow> True | Inr pages \<Rightarrow> pages = [])
                  | _ \<Rightarrow> False)))"
proof (cases "waitForChromeSession w timeoutMs 0")
  case None
  then show ?thesis by (simp add: connectToPage_def)
next
  case (Some t)
  then have "cw_cdp_file w t \<noteq> None" "cw_target_file w t \<noteq> None"
    by (auto dest: waitForChromeSession_ready)
  with Some show ?thesis
    by (auto simp: connectToPage_def readCdpUrl_def readTargetId_def read_trimmed_def truthy_def
      str_of_def find_page_def Let_def split: option.splits fs_file.splits sum.splits if_splits)
qed

lemma connectToPage_success:
  assumes "cw_puppeteer w"
      and "waitForChromeSession w timeoutMs 0 = Some t"
      and "cw_cdp_file w t = Some (Content cdp)" and "trim cdp \<noteq> []"
      and "cw_target_file w t = Some (Content tid)"
      and "cw_connect w (trim cdp) = Inr pages" and "pages \<noteq> []"
  shows "connectToPage w timeoutMs
           = Inr \<lparr>cn_page = (if trim tid \<noteq> [] then
                                (case find (\<lambda>p. pg_targetId p = Some (trim tid)) pages of
                                   Some p \<Rightarrow> p
                                 | None \<Rightarrow> last pages)
                              else last pages),
                  cn_targetId = Some (trim tid), cn_cdpUrl = trim cdp\<rparr>"
  using assms
  by (simp add: connectToPage_def readCdpUrl_def readTargetId_def read_trimmed_def truthy_def
      str_of_def find_page_def Let_def split: option.splits)

text \<open>
  C10 (amended): when the \<open>puppeteer\<close> module is passed in, the marker files appear
  within the timeout and are readable, \<open>cdp_url.txt\<close> is not blank, the connection
  succeeds and the browser has at least one page, \<open>connectToPage\<close> succeeds: it returns
  the page of the persisted target id if that id is not empty and some page has it, and
  otherwise the last page of the browser's page list, without any error. It throws
  exactly when the module is missing, the marker files do not appear within the timeout,
  a marker file is unreadable, \<open>cdp_url.txt\<close> is blank, the connection fails, or the
  browser has no page.
\<close>

theorem connectToPage_fallback:
  "(cw_puppeteer w \<and> waitForChromeSession w timeoutMs 0 = Some t
      \<and> cw_cdp_file w t = Some (Content cdp) \<and> trim cdp \<noteq> []
      \<and> cw_target_file w t = Some (Content tid)
      \<and> cw_connect w (trim cdp) = Inr pages \<and> pages \<noteq> []
    \<longrightarrow> connectToPage w timeoutMs
           = Inr \<lparr>cn_page = (if trim tid \<noteq> [] then
                                (case find (\<lambda>p. pg_targetId p = Some (trim tid)) pages of
                                   Some p \<Rightarrow> p
                                 | None \<Rightarrow> last pages)
                              else last pages),
                  cn_targetId = Some (trim tid), cn_cdpUrl = trim cdp\<rparr>)
   \<and> ((\<exists>err. connectToPage w timeoutMs = Inl err) \<longleftrightarrow>
        (\<not> cw_puppeteer w
         \<or> (case waitForChromeSession w timeoutMs 0 of
               None \<Rightarrow> True
             | Some t \<Rightarrow>
                 cw_cdp_file w t = Some Unreadable
                 \<or> cw_target_file w t = Some Unreadable
                 \<or> (case cw_cdp_file w t of
                       Some (Content cdp) \<Rightarrow>
                         trim cdp = []
                         \<or> (case cw_connect w (trim cdp) of
                               Inl e \<Rightarrow> True
                             | Inr pages \<Rightarrow> pages = [])
                     | _ \<Rightarrow> False))))"
  using connectToPage_success [of w timeoutMs t cdp tid pages] connectToPage_throws_iff [of w timeoutMs]
  by blast

lemma wait_blank: "waitForChromeSession world_blank_cdp 60000 0 = Some 0"
  by (simp add: waitForChromeSession.simps world_blank_cdp_def appears_at_def)

text \<open>
  C10 (as stated, refuted): the marker files are there from the start and the browser
  has a page, but \<open>cdp_url.txt\<close> holds only a space: the call throws.
\<close>

theorem connectToPage_blank_cdp_counterexample:
  "waitForChromeSession world_blank_cdp 60000 0 = Some 0
   \<and> cw_connect world_blank_cdp [] = Inr [other_page]
   \<and> connectToPage world_blank_cdp 60000 = Inl NoCdpUrl"
  unfolding connectToPage_def wait_blank
  by (simp add: readCdpUrl_def read_trimmed_def truthy_def trim_simps
      trim_simps world_blank_cdp_def appears_at_def connect_pages_def)

lemma wait_stale: "waitForChromeSession world_stale_target 60000 0 = Some 200"
  by (simp add: waitForChromeSession.simps world_stale_target_def appears_at_def)

lemma trim_ws_url:
  "trim ''ws://127.0.0.1:9222/devtools/browser/b'' = ''ws://127.0.0.1:9222/devtools/browser/b''"
  by (simp add: trim_simps)

lemma trim_T1: "trim ''T1'' = ''T1''"
  by (simp add: trim_simps)

text \<open>
  The amended C10 on a world whose marker files appear after 200 ms and whose persisted
  target id \<open>T1\<close> matches no page: the page returned is the one of target \<open>T9\<close>.
\<close>

theorem connectToPage_fallback_witness:
  "cw_puppeteer world_stale_target
   \<and> waitForChromeSession world_stale_target 60000 0 = Some 200
   \<and> cw_cdp_file world_stale_target 200
       = Some (Content ''ws://127.0.0.1:9222/devtools/browser/b'')
   \<and> cw_target_file world_stale_target 200 = Some (Content ''T1'')
   \<and> cw_connect world_stale_target ''ws://127.0.0.1:9222/devtools/browser/b'' = Inr [other_page]
   \<and> connectToPage world_stale_target 60000
       = Inr \<lparr>cn_page = other_page, cn_targetId = Some ''T1'',
              cn_cdpUrl = ''ws://127.0.0.1:9222/devtools/browser/b''\<rparr>
   \<and> pg_targetId other_page = Some ''T9''"
  using conjunct1 [OF connectToPage_fallback [of world_stale_target 60000 200
        "''ws://127.0.0.1:9222/devtools/browser/b''" "''T1''" "[other_page]"]]
    wait_stale
  by (simp add: trim_ws_url trim_T1 world_stale_target_def appears_at_def connect_pages_def
      other_page_def)


end
